theory Spec2Isabelle
  imports Complex_Main "HOL-Library.Multiset"
begin

section \<open>The STEPS nowcast of \<^verbatim>\<open>pysteps/nowcasts/steps.py\<close>\<close>

text \<open>
  A shallow embedding of \<^verbatim>\<open>forecast\<close>, \<^verbatim>\<open>_check_inputs\<close> and
  \<^verbatim>\<open>_compute_incremental_mask\<close>. Exceptions are values of \<open>error\<close> and every
  function that can raise returns \<open>error + 'a\<close>. The numerical collaborators that live in
  other modules (extrapolation, cascade decomposition, autoregression, noise generators,
  probability matching, \<^verbatim>\<open>scipy.ndimage\<close>, the random generator) are parameters,
  collected in the record \<open>collab\<close>. Floating-point rounding is abstracted: a pixel is
  an exact real or one of the three non-finite values.
\<close>

subsection \<open>Errors, pixel values and arrays\<close>

datatype error =
  ValueError string
  | NameError string
  | TypeError string
  | IndexError string
  | ZeroDivisionError string

datatype px = Fin real | PInf | NInf | NaN

text \<open>\<^verbatim>\<open>np.isfinite\<close>.\<close>

fun isfinite :: "px \<Rightarrow> bool" where
  "isfinite (Fin _) = True"
| "isfinite _ = False"

text \<open>An \<^verbatim>\<open>ndarray\<close>: its shape and its elements in row-major order.\<close>

record 'a ndarray =
  shape :: "nat list"
  elems :: "'a list"

definition ndim :: "'a ndarray \<Rightarrow> nat" where
  "ndim a = length (shape a)"

text \<open>
  Comparison and arithmetic on pixel values follow IEEE 754 for the non-finite values
  (a comparison with \<open>NaN\<close> is false, \<open>inf - inf\<close> and \<open>0 * inf\<close> are
  \<open>NaN\<close>); on finite values they are exact, and signed zeros are not told apart.
\<close>

fun px_less :: "px \<Rightarrow> px \<Rightarrow> bool" where
  "px_less NaN _ = False"
| "px_less _ NaN = False"
| "px_less (Fin a) (Fin b) = (a < b)"
| "px_less _ NInf = False"
| "px_less NInf _ = True"
| "px_less PInf _ = False"
| "px_less _ PInf = True"

definition px_le :: "px \<Rightarrow> px \<Rightarrow> bool" where
  "px_le a b = (a \<noteq> NaN \<and> b \<noteq> NaN \<and> \<not> px_less b a)"

fun px_neg :: "px \<Rightarrow> px" where
  "px_neg (Fin a) = Fin (- a)"
| "px_neg PInf = NInf"
| "px_neg NInf = PInf"
| "px_neg NaN = NaN"

fun px_add :: "px \<Rightarrow> px \<Rightarrow> px" where
  "px_add NaN _ = NaN"
| "px_add _ NaN = NaN"
| "px_add (Fin a) (Fin b) = Fin (a + b)"
| "px_add PInf NInf = NaN"
| "px_add NInf PInf = NaN"
| "px_add PInf _ = PInf"
| "px_add _ PInf = PInf"
| "px_add NInf _ = NInf"
| "px_add _ NInf = NInf"

definition px_sub :: "px \<Rightarrow> px \<Rightarrow> px" where
  "px_sub a b = px_add a (px_neg b)"

fun px_mul :: "px \<Rightarrow> px \<Rightarrow> px" where
  "px_mul NaN _ = NaN"
| "px_mul _ NaN = NaN"
| "px_mul (Fin a) (Fin b) = Fin (a * b)"
| "px_mul (Fin a) y = (if a = 0 then NaN else if 0 < a then y else px_neg y)"
| "px_mul x (Fin b) = (if b = 0 then NaN else if 0 < b then x else px_neg x)"
| "px_mul PInf y = y"
| "px_mul NInf y = px_neg y"

fun px_div :: "px \<Rightarrow> px \<Rightarrow> px" where
  "px_div NaN _ = NaN"
| "px_div _ NaN = NaN"
| "px_div (Fin a) (Fin b) =
    (if b = 0 then (if a = 0 then NaN else if 0 < a then PInf else NInf) else Fin (a / b))"
| "px_div (Fin a) _ = Fin 0"
| "px_div x (Fin b) = (if 0 \<le> b then x else px_neg x)"
| "px_div _ _ = NaN"

text \<open>
  \<^verbatim>\<open>ndarray.min\<close>, \<^verbatim>\<open>ndarray.max\<close> (a \<open>NaN\<close> propagates),
  \<^verbatim>\<open>np.nanmin\<close> (the \<open>NaN\<close>s are skipped; all \<open>NaN\<close> gives \<open>NaN\<close> and a
  warning) and \<^verbatim>\<open>np.mean\<close> (of nothing: \<open>NaN\<close> and a warning). The reductions
  of an empty array raise \<^verbatim>\<open>ValueError\<close>.
\<close>

definition px_min2 :: "px \<Rightarrow> px \<Rightarrow> px" where
  "px_min2 a b = (if a = NaN \<or> b = NaN then NaN else if px_less b a then b else a)"

definition px_max2 :: "px \<Rightarrow> px \<Rightarrow> px" where
  "px_max2 a b = (if a = NaN \<or> b = NaN then NaN else if px_less a b then b else a)"

definition np_min :: "px list \<Rightarrow> error + px" where
  "np_min xs = (case xs of
      [] \<Rightarrow> Inl (ValueError ''zero-size array to reduction operation minimum'')
    | y # ys \<Rightarrow> Inr (foldl px_min2 y ys))"

definition np_max :: "px list \<Rightarrow> error + px" where
  "np_max xs = (case xs of
      [] \<Rightarrow> Inl (ValueError ''zero-size array to reduction operation maximum'')
    | y # ys \<Rightarrow> Inr (foldl px_max2 y ys))"

definition np_nanmin :: "px list \<Rightarrow> error + px" where
  "np_nanmin xs =
    (if xs = [] then Inl (ValueError ''zero-size array to reduction operation fmin'')
     else (case filter (\<lambda>x. x \<noteq> NaN) xs of
         [] \<Rightarrow> Inr NaN
       | y # ys \<Rightarrow> Inr (foldl px_min2 y ys)))"

definition np_mean :: "px list \<Rightarrow> px" where
  "np_mean xs =
    (if xs = [] then NaN else px_div (foldl px_add (Fin 0) xs) (Fin (real (length xs))))"

text \<open>
  Elementwise operations on arrays of one shape, and the assignment
  \<^verbatim>\<open>a[m] = v\<close> through a boolean mask of the shape of \<open>a\<close>.
\<close>

type_synonym field = "px ndarray"

type_synonym bmask = "bool ndarray"

definition map_arr :: "('a \<Rightarrow> 'b) \<Rightarrow> 'a ndarray \<Rightarrow> 'b ndarray" where
  "map_arr f a = \<lparr>shape = shape a, elems = map f (elems a)\<rparr>"

definition zip_arr :: "('a \<Rightarrow> 'b \<Rightarrow> 'c) \<Rightarrow> 'a ndarray \<Rightarrow> 'b ndarray \<Rightarrow> 'c ndarray" where
  "zip_arr f a b = \<lparr>shape = shape a, elems = map2 f (elems a) (elems b)\<rparr>"

definition assign_where :: "bmask \<Rightarrow> 'a \<Rightarrow> 'a ndarray \<Rightarrow> 'a ndarray" where
  "assign_where m v a =
    \<lparr>shape = shape a, elems = map2 (\<lambda>b x. if b then v else x) (elems m) (elems a)\<rparr>"

text \<open>\<^verbatim>\<open>a >= thr\<close> with \<^verbatim>\<open>thr = None\<close> raises \<^verbatim>\<open>TypeError\<close>.\<close>

definition ge_thr :: "field \<Rightarrow> real option \<Rightarrow> error + bmask" where
  "ge_thr a thr = (case thr of
      None \<Rightarrow> Inl (TypeError ''>= not supported between float and NoneType'')
    | Some c \<Rightarrow> Inr (map_arr (\<lambda>x. px_le (Fin c) x) a))"

text \<open>
  \<^verbatim>\<open>np.logical_or.reduce\<close> and \<^verbatim>\<open>np.logical_and.reduce\<close> over a list of masks
  (of no mask: the identity of the operation, a scalar).
\<close>

definition logical_reduce :: "(bool \<Rightarrow> bool \<Rightarrow> bool) \<Rightarrow> bool \<Rightarrow> bmask list \<Rightarrow> bmask" where
  "logical_reduce f e ms = (case ms of
      [] \<Rightarrow> \<lparr>shape = [], elems = [e]\<rparr>
    | m # ms' \<Rightarrow> foldl (zip_arr f) m ms')"

text \<open>The two-dimensional slices \<^verbatim>\<open>a[i, :, :]\<close> of an array, in order.\<close>

definition frames :: "'a ndarray \<Rightarrow> 'a ndarray list" where
  "frames a =
    (let s = tl (shape a); k = prod_list s
     in map (\<lambda>i. \<lparr>shape = s, elems = take k (drop (i * k) (elems a))\<rparr>) [0..<hd (shape a)])"

text \<open>The slice \<^verbatim>\<open>xs[-k:]\<close> (all of \<open>xs\<close> when \<open>k = 0\<close>).\<close>

definition py_lastn :: "nat \<Rightarrow> 'a list \<Rightarrow> 'a list" where
  "py_lastn k xs = (if k = 0 then xs else drop (length xs - k) xs)"

text \<open>
  \<^verbatim>\<open>np.stack\<close> of arrays of one shape, and \<^verbatim>\<open>np.stack\<close> of Python lists of
  arrays, each list first made an array (the empty list: an array of shape \<open>(0,)\<close>);
  \<^verbatim>\<open>squeeze\<close> drops the axes of length one.
\<close>

definition np_stack :: "'a ndarray list \<Rightarrow> error + 'a ndarray" where
  "np_stack as = (case as of
      [] \<Rightarrow> Inl (ValueError ''need at least one array to stack'')
    | a # _ \<Rightarrow>
        if list_ex (\<lambda>b. shape b \<noteq> shape a) as then
          Inl (ValueError ''all input arrays must have the same shape'')
        else Inr \<lparr>shape = length as # shape a, elems = concat (map elems as)\<rparr>)"

definition asarray :: "'a ndarray list \<Rightarrow> error + 'a ndarray" where
  "asarray as = (case as of [] \<Rightarrow> Inr \<lparr>shape = [0], elems = []\<rparr> | _ \<Rightarrow> np_stack as)"

definition squeeze :: "'a ndarray \<Rightarrow> 'a ndarray" where
  "squeeze a = \<lparr>shape = filter (\<lambda>d. d \<noteq> 1) (shape a), elems = elems a\<rparr>"

text \<open>\<^verbatim>\<open>int(x)\<close> of a float: truncation towards zero.\<close>

definition py_int :: "real \<Rightarrow> int" where
  "py_int x = (if 0 \<le> x then \<lfloor>x\<rfloor> else \<lceil>x\<rceil>)"

subsection \<open>Sequencing computations that may raise\<close>

definition bindE :: "error + 'a \<Rightarrow> ('a \<Rightarrow> error + 'b) \<Rightarrow> error + 'b" where
  "bindE m f = (case m of Inl e \<Rightarrow> Inl e | Inr x \<Rightarrow> f x)"

fun mapE :: "('a \<Rightarrow> error + 'b) \<Rightarrow> 'a list \<Rightarrow> error + 'b list" where
  "mapE f [] = Inr []"
| "mapE f (x # xs) = bindE (f x) (\<lambda>y. bindE (mapE f xs) (\<lambda>ys. Inr (y # ys)))"

subsection \<open>The arguments of \<^verbatim>\<open>forecast\<close>\<close>

text \<open>
  \<^verbatim>\<open>timesteps\<close> is an \<^verbatim>\<open>int\<close>, a \<^verbatim>\<open>list\<close> of times, or another
  sequence of times (a tuple, an array), which \<^verbatim>\<open>isinstance(timesteps, list)\<close>
  tells apart.
\<close>

datatype timesteps = TInt int | TList "real list" | TSeq "real list"

text \<open>
  The keyword arguments that the body of \<^verbatim>\<open>forecast\<close> itself reads, and the
  method names that it hands to the \<^verbatim>\<open>get_method\<close> of another module. The
  parameter \<^verbatim>\<open>decomp_method\<close> is the field \<open>decomp_method_name\<close>: line 376 binds
  the name \<^verbatim>\<open>decomp_method\<close> anew, to the method. The keyword bags of the
  collaborators, \<^verbatim>\<open>num_workers\<close> and \<^verbatim>\<open>measure_time\<close> are part of the
  collaborators. \<^verbatim>\<open>callback\<close> records whether a callback was supplied; the
  arguments it is called with are part of the result.
\<close>

record opts =
  n_ens_members :: nat
  n_cascade_levels :: nat
  precip_thr :: "real option"
  kmperpixel :: "real option"
  timestep :: "real option"
  noise_method :: "string option"
  noise_stddev_adj :: "string option"
  ar_order :: nat
  vel_pert_method :: "string option"
  conditional :: bool
  probmatching_method :: "string option"
  mask_method :: "string option"
  callback :: bool
  return_output :: bool
  seed :: "int option"
  domain :: string
  p_par :: "real list option"
  p_perp :: "real list option"
  mask_rim :: "nat option"
  mask_f :: "real option"
  extrap_method :: string
  decomp_method_name :: string
  bandpass_filter_method :: string
  fft_method :: string

subsection \<open>Input validation\<close>

text \<open>\<^verbatim>\<open>_check_inputs\<close> (lines 849-862).\<close>

definition check_inputs :: "px ndarray \<Rightarrow> px ndarray \<Rightarrow> timesteps \<Rightarrow> nat \<Rightarrow> error + unit" where
  "check_inputs precip velocity ts order =
    (if ndim precip \<noteq> 3 then Inl (ValueError ''precip must be a three-dimensional array'')
     else if shape precip ! 0 < order + 1 then Inl (ValueError ''precip.shape[0] < ar_order+1'')
     else if ndim velocity \<noteq> 3 then
       Inl (ValueError ''velocity must be a three-dimensional array'')
     else if take 2 (drop 1 (shape precip)) \<noteq> take 2 (drop 1 (shape velocity)) then
       Inl (ValueError ''dimension mismatch between precip and velocity'')
     else (case ts of
         TList l \<Rightarrow>
           if sort l \<noteq> l then Inl (ValueError ''timesteps is not in ascending order'')
           else Inr ()
       | _ \<Rightarrow> Inr ()))"

text \<open>The checks of lines 277-308, in the order of the source.\<close>

definition check_options :: "opts \<Rightarrow> px ndarray \<Rightarrow> error + unit" where
  "check_options cfg velocity =
    (if list_ex (\<lambda>v. \<not> isfinite v) (elems velocity) then
       Inl (ValueError ''velocity contains non-finite values'')
     else if \<not> List.member [Some ''obs'', Some ''sprog'', Some ''incremental'', None]
         (mask_method cfg) then
       Inl (ValueError ''unknown mask method'')
     else if conditional cfg \<and> precip_thr cfg = None then
       Inl (ValueError ''conditional=True but precip_thr is not set'')
     else if mask_method cfg \<noteq> None \<and> precip_thr cfg = None then
       Inl (ValueError ''mask_method is not None but precip_thr is not set'')
     else if \<not> List.member [Some ''auto'', Some ''fixed'', None] (noise_stddev_adj cfg) then
       Inl (ValueError ''unknown noise_std_dev_adj method'')
     else if kmperpixel cfg = None \<and> vel_pert_method cfg \<noteq> None then
       Inl (ValueError ''vel_pert_method is set but kmperpixel=None'')
     else if kmperpixel cfg = None \<and> mask_method cfg = Some ''incremental'' then
       Inl (ValueError ''mask_method='incremental' but kmperpixel=None'')
     else if timestep cfg = None \<and> vel_pert_method cfg \<noteq> None then
       Inl (ValueError ''vel_pert_method is set but timestep=None'')
     else if timestep cfg = None \<and> mask_method cfg = Some ''incremental'' then
       Inl (ValueError ''mask_method='incremental' but timestep=None'')
     else Inr ())"

text \<open>Everything \<^verbatim>\<open>forecast\<close> checks before it prints and computes (lines 260-308).\<close>

definition validate :: "opts \<Rightarrow> px ndarray \<Rightarrow> px ndarray \<Rightarrow> timesteps \<Rightarrow> error + unit" where
  "validate cfg precip velocity ts =
    (case check_inputs precip velocity ts (ar_order cfg) of
       Inl e \<Rightarrow> Inl e
     | Inr _ \<Rightarrow> check_options cfg velocity)"

subsection \<open>The collaborators\<close>

text \<open>
  A cascade decomposition, the dictionary that \<^verbatim>\<open>decomp_method\<close> returns: the
  cascade levels and the statistics that the recomposition reads.
\<close>

record decomp =
  cascade_levels :: "field list"
  means :: "px list"
  stds :: "px list"

text \<open>
  The functions of the other modules, as \<^verbatim>\<open>forecast\<close> calls them. The type
  variables stand for their opaque values: \<open>'r\<close> a \<^verbatim>\<open>RandomState\<close>, \<open>'d\<close> the
  displacement of the extrapolator, \<open>'n\<close> the noise generator \<^verbatim>\<open>pp\<close>, \<open>'v\<close> a
  velocity perturbator and \<open>'s\<close> a structuring element. A function that draws random
  numbers returns the advanced generator with its result.

  \<^item> \<open>extrapolate_to f v k\<close> is \<^verbatim>\<open>extrapolator_method(f, v, k, "min", **extrap_kwargs)[-1]\<close>
    (line 409) and \<open>extrapolate f v ts d\<close> is the call of lines 731 and 751 with
    \<^verbatim>\<open>return_displacement\<close> set and \<^verbatim>\<open>displacement_prev = d\<close>;
  \<^item> \<open>decomp_method n f m\<close> decomposes \<open>f\<close> with the bandpass filter of \<open>n\<close> levels
    and the mask \<open>m\<close>;
  \<^item> \<open>iterate_structure k\<close> is
    \<^verbatim>\<open>iterate_structure(generate_binary_structure(2, 1), k)\<close> and \<open>kr1\<close> is
    \<^verbatim>\<open>generate_binary_structure(2, 1)\<close>;
  \<^item> \<open>utils_get_method\<close>, \<open>cascade_get_method\<close>, \<open>extrapolation_get_method\<close> and
    \<open>noise_get_method\<close> are the lookups \<^verbatim>\<open>utils.get_method\<close>,
    \<^verbatim>\<open>cascade.get_method\<close>, \<^verbatim>\<open>extrapolation.get_method\<close> and
    \<^verbatim>\<open>noise.get_method\<close> of a method by its name (lines 368, 373, 376, 378, 432
    and 536): they raise for a name they do not know, and the methods they yield are
    the other fields of this record;
  \<^item> \<open>filter_method name (M, N) n\<close> is the construction of the bandpass filter of
    line 374 by the filter method of that name, which may refuse its arguments;
  \<^item> \<open>binned_timesteps\<close> is \<^verbatim>\<open>nowcast_utils.binned_timesteps\<close> (line 601), which
    may refuse the times.

  The lists that the collaborators return per cascade level are indexed with \<open>!\<close>: by
  their interface they have one entry for each level.
\<close>

record ('r, 'd, 'n, 'v, 's) collab =
  extrapolate_to :: "field \<Rightarrow> field \<Rightarrow> nat \<Rightarrow> field"
  extrapolate :: "field option \<Rightarrow> field \<Rightarrow> real list \<Rightarrow> 'd option \<Rightarrow> field list \<times> 'd"
  decomp_method :: "nat \<Rightarrow> field \<Rightarrow> bmask option \<Rightarrow> decomp"
  recomp_method :: "decomp \<Rightarrow> field"
  irfft2 :: "field \<Rightarrow> field"
  stack_cascades :: "decomp list \<Rightarrow> nat \<Rightarrow> field list list"
  temporal_autocorrelation :: "field list \<Rightarrow> bmask option \<Rightarrow> px list"
  adjust_lag2_corrcoef2 :: "px \<Rightarrow> px \<Rightarrow> px"
  estimate_ar_params_yw :: "px list \<Rightarrow> px list"
  iterate_ar_model :: "field list \<Rightarrow> px list \<Rightarrow> field option \<Rightarrow> field list"
  init_noise :: "field list \<Rightarrow> 'n"
  generate_noise :: "'n \<Rightarrow> 'r \<Rightarrow> field \<times> 'r"
  compute_noise_stddev_adjs :: "field \<Rightarrow> real option \<Rightarrow> px \<Rightarrow> 'n \<Rightarrow> px list"
  random_state :: "int option \<Rightarrow> 'r"
  randint :: "'r \<Rightarrow> int \<times> 'r"
  init_vel_noise :: "field \<Rightarrow> real \<Rightarrow> real option \<Rightarrow> 'r \<Rightarrow> real list \<Rightarrow> real list \<Rightarrow> 'v"
  generate_vel_noise :: "'v \<Rightarrow> real \<Rightarrow> field \<times> 'v"
  default_p_par :: "real list"
  default_p_perp :: "real list"
  iterate_structure :: "int \<Rightarrow> 's"
  kr1 :: 's
  binary_dilation :: "bmask \<Rightarrow> 's \<Rightarrow> bmask"
  compute_percentile_mask :: "field \<Rightarrow> real \<Rightarrow> bmask"
  nonparam_match_empirical_cdf :: "field \<Rightarrow> field \<Rightarrow> field"
  binned_timesteps :: "real list \<Rightarrow> error + nat list list"
  utils_get_method :: "string \<Rightarrow> error + unit"
  cascade_get_method :: "string \<Rightarrow> error + unit"
  filter_method :: "string \<Rightarrow> nat \<times> nat \<Rightarrow> nat \<Rightarrow> error + unit"
  extrapolation_get_method :: "string \<Rightarrow> error + unit"
  noise_get_method :: "string \<Rightarrow> error + unit"

subsection \<open>The state of a run\<close>

text \<open>
  What \<^verbatim>\<open>forecast\<close> keeps per ensemble member, the entries \<open>j\<close> of its lists
  \<^verbatim>\<open>precip_c\<close>, \<^verbatim>\<open>precip_d\<close>, \<^verbatim>\<open>randgen_prec\<close>, \<^verbatim>\<open>vps\<close>,
  \<^verbatim>\<open>displacement\<close>, \<^verbatim>\<open>precip_f\<close>, \<^verbatim>\<open>mask_prec\<close> (a list under the
  incremental mask only), \<^verbatim>\<open>precip_f_prev\<close>, \<^verbatim>\<open>t_prev\<close> and
  \<^verbatim>\<open>t_total\<close>. For \<open>randgen_prec\<close>, \<open>vps\<close> and \<open>mask_prec_j\<close> the value
  \<open>None\<close> says that the list was never bound; for \<open>displacement\<close> it is Python's
  \<^verbatim>\<open>None\<close>.
\<close>

record ('r, 'd, 'v) member =
  precip_c :: "field list list"
  precip_d :: decomp
  randgen_prec :: "'r option"
  vps :: "'v option"
  displacement :: "'d option"
  precip_f :: "field list"
  mask_prec_j :: "field option"
  precip_f_prev :: field
  t_prev :: real
  t_total :: real

text \<open>
  What the members share: \<open>precip0\<close> is \<^verbatim>\<open>precip\<close> after line 590, \<open>noise_env\<close>
  is \<^verbatim>\<open>pp\<close> with \<^verbatim>\<open>noise_std_coeffs\<close>, \<open>incr\<close> is \<^verbatim>\<open>struct\<close> with
  \<^verbatim>\<open>mask_rim\<close>, \<open>mask_prec\<close> is the boolean mask of the methods
  \<^verbatim>\<open>obs\<close> and \<^verbatim>\<open>sprog\<close>. \<open>None\<close> is an unbound name, but for
  \<open>precip_m\<close>, where it is Python's \<^verbatim>\<open>None\<close> (line 555).
\<close>

record ('n, 's) env =
  precip0 :: field
  domain_mask :: bmask
  phi :: "px list list"
  noise_env :: "('n \<times> px list) option"
  mu_0 :: "px option"
  war :: "real option"
  incr :: "('s \<times> nat) option"
  mask_prec :: "bmask option"
  precip_m :: "field list list option"
  precip_m_d :: "decomp option"

subsection \<open>\<^verbatim>\<open>_compute_incremental_mask\<close> (lines 865-880)\<close>

definition astype_float :: "bmask \<Rightarrow> field" where
  "astype_float b = map_arr (\<lambda>x. if x then Fin 1 else Fin 0) b"

fun rim_loop :: "('r, 'd, 'n, 'v, 's) collab \<Rightarrow> nat \<Rightarrow> bmask \<Rightarrow> field \<Rightarrow> field" where
  "rim_loop C 0 Rd msk = msk"
| "rim_loop C (Suc k) Rd msk =
    (let Rd' = binary_dilation C Rd (kr1 C)
     in rim_loop C k Rd' (zip_arr px_add msk (astype_float Rd')))"

definition compute_incremental_mask ::
  "('r, 'd, 'n, 'v, 's) collab \<Rightarrow> bmask \<Rightarrow> 's \<Rightarrow> nat \<Rightarrow> error + field" where
  "compute_incremental_mask C Rbin kr r =
    (let Rd = binary_dilation C Rbin kr;
         msk = rim_loop C r Rd (astype_float Rd)
     in bindE (np_max (elems msk)) (\<lambda>mx. Inr (map_arr (\<lambda>x. px_div x mx) msk)))"

subsection \<open>The nowcast iteration of one member: \<^verbatim>\<open>worker\<close> (lines 617-761)\<close>

text \<open>Lines 618-636: the noise field and its cascade.\<close>

definition gen_noise ::
  "('r, 'd, 'n, 'v, 's) collab \<Rightarrow> opts \<Rightarrow> ('n, 's) env \<Rightarrow> ('r, 'd, 'v) member \<Rightarrow>
    error + (decomp option \<times> 'r option)" where
  "gen_noise C cfg E m =
    (if noise_method cfg \<noteq> None then
       (case noise_env E of
          None \<Rightarrow> Inl (NameError ''pp'')
        | Some (p, cs) \<Rightarrow>
            (case randgen_prec m of
               None \<Rightarrow> Inl (NameError ''randgen_prec'')
             | Some r \<Rightarrow>
                 (let (eps, r') = generate_noise C p r
                  in Inr (Some (decomp_method C (n_cascade_levels cfg) eps None), Some r'))))
     else Inr (None, randgen_prec m))"

text \<open>Lines 639-654: one cascade level of the AR(p) model.\<close>

definition ar_level ::
  "('r, 'd, 'n, 'v, 's) collab \<Rightarrow> opts \<Rightarrow> ('n, 's) env \<Rightarrow> decomp option \<Rightarrow>
    field list list \<Rightarrow> nat \<Rightarrow> error + field list" where
  "ar_level C cfg E eps pc i =
    (case eps of
       Some e \<Rightarrow>
         (case noise_env E of
            None \<Rightarrow> Inl (NameError ''noise_std_coeffs'')
          | Some (p, cs) \<Rightarrow>
              Inr (iterate_ar_model C (pc ! i) (phi E ! i)
                (Some (map_arr (\<lambda>x. px_mul x (cs ! i)) (cascade_levels e ! i)))))
     | None \<Rightarrow>
         if vel_pert_method cfg \<noteq> None then
           Inr (iterate_ar_model C (pc ! i) (phi E ! i) None)
         else (case precip_m E of
             None \<Rightarrow> Inl (TypeError ''NoneType object is not subscriptable'')
           | Some pm \<Rightarrow> Inr (pm ! i)))"

text \<open>
  Lines 661-669 (and 793-800): the field recomposed from the newest cascade of each
  level. Stacking the levels into one array (domain \<^verbatim>\<open>spatial\<close>) changes their
  representation only.
\<close>

definition recompose ::
  "('r, 'd, 'n, 'v, 's) collab \<Rightarrow> opts \<Rightarrow> decomp \<Rightarrow> field list list \<Rightarrow> decomp \<times> field" where
  "recompose C cfg d pc =
    (let d' = d\<lparr>cascade_levels := map last pc\<rparr>;
         f = recomp_method C d'
     in (d', if domain cfg = ''spectral'' then irfft2 C f else f))"

text \<open>Lines 671-683: the precipitation mask.\<close>

definition apply_mask ::
  "opts \<Rightarrow> ('n, 's) env \<Rightarrow> ('r, 'd, 'v) member \<Rightarrow> field \<Rightarrow> error + field" where
  "apply_mask cfg E m precip_f_new =
    (if mask_method cfg \<noteq> None then
       bindE (np_min (elems precip_f_new)) (\<lambda>R_cmin.
         if mask_method cfg = Some ''incremental'' then
           (case mask_prec_j m of
              None \<Rightarrow> Inl (NameError ''mask_prec'')
            | Some w \<Rightarrow>
                (let f = zip_arr (\<lambda>x y. px_add R_cmin (px_mul (px_sub x R_cmin) y))
                       precip_f_new w;
                     mask_prec' = map_arr (\<lambda>x. px_less R_cmin x) f
                 in Inr (assign_where (map_arr Not mask_prec') R_cmin f)))
         else
           (case mask_prec E of
              None \<Rightarrow> Inl (NameError ''mask_prec'')
            | Some mask_prec' \<Rightarrow>
                Inr (assign_where (map_arr Not mask_prec') R_cmin precip_f_new)))
     else Inr precip_f_new)"

text \<open>Lines 685-694: probability matching. \<open>select b a\<close> is \<^verbatim>\<open>a[b]\<close>.\<close>

definition select :: "bmask \<Rightarrow> 'a ndarray \<Rightarrow> 'a list" where
  "select b a = map snd (filter fst (zip (elems b) (elems a)))"

definition prob_match ::
  "('r, 'd, 'n, 'v, 's) collab \<Rightarrow> opts \<Rightarrow> ('n, 's) env \<Rightarrow> field \<Rightarrow> error + field" where
  "prob_match C cfg E precip_f_new =
    (if probmatching_method cfg = Some ''cdf'' then
       Inr (nonparam_match_empirical_cdf C precip_f_new (precip0 E))
     else if probmatching_method cfg = Some ''mean'' then
       bindE (ge_thr precip_f_new (precip_thr cfg)) (\<lambda>MASK.
         (case mu_0 E of
            None \<Rightarrow> Inl (NameError ''mu_0'')
          | Some mu0 \<Rightarrow>
              (let mu_fct = np_mean (select MASK precip_f_new)
               in Inr (zip_arr (\<lambda>b x. if b then px_add (px_sub x mu_fct) mu0 else x)
                    MASK precip_f_new))))
     else Inr precip_f_new)"

text \<open>Lines 696-699: the next incremental mask of the member.\<close>

definition update_mask ::
  "('r, 'd, 'n, 'v, 's) collab \<Rightarrow> opts \<Rightarrow> ('n, 's) env \<Rightarrow> field \<Rightarrow> field option \<Rightarrow>
    error + field option" where
  "update_mask C cfg E precip_f_new old =
    (if mask_method cfg = Some ''incremental'' then
       bindE (ge_thr precip_f_new (precip_thr cfg)) (\<lambda>b.
         (case incr E of
            None \<Rightarrow> Inl (NameError ''struct'')
          | Some (st, rim) \<Rightarrow>
              bindE (compute_incremental_mask C b st rim) (\<lambda>mk. Inr (Some mk))))
     else Inr old)"

text \<open>Lines 724-728 and 746-748: the perturbed motion field at the elapsed time \<open>tt\<close>.\<close>

definition perturb ::
  "('r, 'd, 'n, 'v, 's) collab \<Rightarrow> opts \<Rightarrow> field \<Rightarrow> 'v option \<Rightarrow> real \<Rightarrow>
    error + (field \<times> 'v option)" where
  "perturb C cfg velocity vp tt =
    (if vel_pert_method cfg \<noteq> None then
       (case vp of
          None \<Rightarrow> Inl (NameError ''vps'')
        | Some p \<Rightarrow>
            (case timestep cfg of
               None \<Rightarrow> Inl (TypeError ''unsupported operand type(s) for *'')
             | Some dt \<Rightarrow>
                 (let (nz, p') = generate_vel_noise C p (tt * dt)
                  in Inr (zip_arr px_add velocity nz, Some p'))))
     else Inr (velocity, vp))"

text \<open>
  Lines 713-719: the field that is advected to the time \<open>t_sub\<close>, from the previous
  and the new forecast field.
\<close>

definition precip_f_ip :: "real \<Rightarrow> field \<Rightarrow> field \<Rightarrow> field" where
  "precip_f_ip t_sub prev new =
    (let t_diff_prev_int = t_sub - of_int (py_int t_sub)
     in if 0 < t_diff_prev_int then
          zip_arr px_add (map_arr (px_mul (Fin (1 - t_diff_prev_int))) prev)
            (map_arr (px_mul (Fin t_diff_prev_int)) new)
        else prev)"

text \<open>Lines 711-738: the loop over the subtimesteps of the interval.\<close>

fun advect_sub ::
  "('r, 'd, 'n, 'v, 's) collab \<Rightarrow> opts \<Rightarrow> field \<Rightarrow> field \<Rightarrow> real list \<Rightarrow>
    ('r, 'd, 'v) member \<Rightarrow> error + (field list \<times> ('r, 'd, 'v) member)" where
  "advect_sub C cfg velocity precip_f_new [] m = Inr ([], m)"
| "advect_sub C cfg velocity precip_f_new (t_sub # ts) m =
    (if 0 < t_sub then
       (let ip = precip_f_ip t_sub (precip_f_prev m) precip_f_new;
            t_diff_prev = t_sub - t_prev m;
            tt = t_total m + t_diff_prev
        in bindE (perturb C cfg velocity (vps m) tt) (\<lambda>(vel_pert, vp).
             (case extrapolate C (Some ip) vel_pert [t_diff_prev] (displacement m) of
                ([], d) \<Rightarrow> Inl (IndexError ''index 0 is out of bounds'')
              | (precip_f_ep # _, d) \<Rightarrow>
                  bindE (advect_sub C cfg velocity precip_f_new ts
                      (m\<lparr>t_total := tt, vps := vp, displacement := Some d, t_prev := t_sub\<rparr>))
                    (\<lambda>(outs, m'). Inr (precip_f_ep # outs, m')))))
     else advect_sub C cfg velocity precip_f_new ts m)"

text \<open>Lines 742-757: no subtimestep in the interval, the displacement advances by one step.\<close>

definition advect_full ::
  "('r, 'd, 'n, 'v, 's) collab \<Rightarrow> opts \<Rightarrow> field \<Rightarrow> nat \<Rightarrow> real list \<Rightarrow>
    ('r, 'd, 'v) member \<Rightarrow> error + ('r, 'd, 'v) member" where
  "advect_full C cfg velocity t subtimesteps m =
    (if subtimesteps = [] then
       (let t_diff_prev = real t + 1 - t_prev m;
            tt = t_total m + t_diff_prev
        in bindE (perturb C cfg velocity (vps m) tt) (\<lambda>(vel_pert, vp).
             (let (u, d) = extrapolate C None vel_pert [t_diff_prev] (displacement m)
              in Inr (m\<lparr>t_total := tt, vps := vp, displacement := Some d,
                   t_prev := real t + 1\<rparr>))))
     else Inr m)"

definition worker ::
  "('r, 'd, 'n, 'v, 's) collab \<Rightarrow> opts \<Rightarrow> field \<Rightarrow> ('n, 's) env \<Rightarrow> ('r, 'd, 'v) member \<Rightarrow>
    nat \<Rightarrow> real list \<Rightarrow> error + (field list \<times> ('r, 'd, 'v) member)" where
  "worker C cfg velocity E m t subtimesteps =
    bindE (gen_noise C cfg E m) (\<lambda>(eps, rg).
    bindE (mapE (ar_level C cfg E eps (precip_c m)) [0..<n_cascade_levels cfg]) (\<lambda>pc.
    (let (pd, f0) = recompose C cfg (precip_d m) pc
     in bindE (apply_mask cfg E m f0) (\<lambda>f1.
        bindE (prob_match C cfg E f1) (\<lambda>f2.
        bindE (update_mask C cfg E f2 (mask_prec_j m)) (\<lambda>mk.
        (let precip_f_new = assign_where (domain_mask E) NaN f2;
             m1 = m\<lparr>precip_c := pc, precip_d := pd, randgen_prec := rg, mask_prec_j := mk\<rparr>
         in bindE (advect_sub C cfg velocity precip_f_new subtimesteps m1) (\<lambda>(outs, m2).
            bindE (advect_full C cfg velocity t subtimesteps m2)
              (\<lambda>m3. Inr (outs, m3\<lparr>precip_f_prev := precip_f_new\<rparr>))))))))))"

subsection \<open>Initialisation (lines 348-608)\<close>

text \<open>
  Lines 348-358: the parameters of the velocity perturbator are bound, and three
  entries of each are printed, under the method \<^verbatim>\<open>bps\<close> only.
\<close>

definition vel_pert_params ::
  "('r, 'd, 'n, 'v, 's) collab \<Rightarrow> opts \<Rightarrow> error + (real list \<times> real list) option" where
  "vel_pert_params C cfg =
    (if vel_pert_method cfg = Some ''bps'' then
       (let vp_par = (case p_par cfg of Some p \<Rightarrow> p | None \<Rightarrow> default_p_par C);
            vp_perp = (case p_perp cfg of Some p \<Rightarrow> p | None \<Rightarrow> default_p_perp C)
        in if length vp_par < 3 \<or> length vp_perp < 3 then
             Inl (IndexError ''list index out of range'')
           else Inr (Some (vp_par, vp_perp)))
     else Inr None)"

text \<open>
  Lines 368-378: the FFT method, the bandpass filter for the grid \<open>(M, N)\<close> of the
  input and the number of cascade levels, the decomposition and the extrapolation
  method. Line 586 looks the FFT method up again, for every member, by the same name.
\<close>

definition get_methods :: "('r, 'd, 'n, 'v, 's) collab \<Rightarrow> opts \<Rightarrow> field \<Rightarrow> error + unit" where
  "get_methods C cfg precip =
    bindE (utils_get_method C (fft_method cfg)) (\<lambda>u.
    bindE (cascade_get_method C (bandpass_filter_method cfg)) (\<lambda>u.
    bindE (filter_method C (bandpass_filter_method cfg) (shape precip ! 1, shape precip ! 2)
        (n_cascade_levels cfg)) (\<lambda>u.
    bindE (cascade_get_method C (decomp_method_name cfg)) (\<lambda>u.
    extrapolation_get_method C (extrap_method cfg)))))"

text \<open>
  Lines 386-428: the last \<^verbatim>\<open>ar_order + 1\<close> input fields, the domain mask, the
  threshold mask, the advection of the older fields to the time of the newest one, and
  the minimum in place of the non-finite values. The result is the fields, the domain
  mask and \<^verbatim>\<open>mask_thr\<close>.
\<close>

definition prepare_precip ::
  "('r, 'd, 'n, 'v, 's) collab \<Rightarrow> opts \<Rightarrow> field \<Rightarrow> field \<Rightarrow>
    error + (field list \<times> bmask \<times> bmask option)" where
  "prepare_precip C cfg precip velocity =
    (let fr = py_lastn (ar_order cfg + 1) (frames precip);
         dm = logical_reduce (\<or>) False (map (map_arr (\<lambda>x. \<not> isfinite x)) fr)
     in bindE (if conditional cfg then
                 bindE (mapE (\<lambda>f. ge_thr f (precip_thr cfg)) fr)
                   (\<lambda>ms. Inr (Some (logical_reduce (\<and>) True ms)))
               else Inr None) (\<lambda>mask_thr.
        (let al = map (\<lambda>i. if i < ar_order cfg
                     then extrapolate_to C (fr ! i) velocity (ar_order cfg - i) else fr ! i)
                   [0..<length fr]
         in bindE (mapE (\<lambda>f. bindE (np_nanmin (elems f))
                      (\<lambda>mn. Inr (map_arr (\<lambda>x. if isfinite x then x else mn) f))) al)
              (\<lambda>fr2. Inr (fr2, dm, mask_thr)))))"

text \<open>Lines 430-467: the noise generator and the adjustment coefficients.\<close>

definition init_noise_coeffs ::
  "('r, 'd, 'n, 'v, 's) collab \<Rightarrow> opts \<Rightarrow> field list \<Rightarrow> error + ('n \<times> px list) option" where
  "init_noise_coeffs C cfg fr =
    (case noise_method cfg of
       Some name \<Rightarrow>
         bindE (noise_get_method C name) (\<lambda>u.
           (let p = init_noise C fr
            in if noise_stddev_adj cfg = Some ''auto'' then
                 bindE (np_min (concat (map elems fr))) (\<lambda>precip_min.
                   Inr (Some (p, compute_noise_stddev_adjs C (last fr) (precip_thr cfg)
                         precip_min p)))
               else if noise_stddev_adj cfg = Some ''fixed'' then
                 Inr (Some (p, map (\<lambda>k. Fin (1 / (0.75 + 0.09 * real k)))
                       [1..<n_cascade_levels cfg + 1]))
               else Inr (Some (p, replicate (n_cascade_levels cfg) (Fin 1)))))
     | None \<Rightarrow> Inr None)"

text \<open>
  Lines 469-514: the decompositions, the cascades of the AR(p) model and its parameters.
  The result is \<^verbatim>\<open>precip_d[-1]\<close>, the \<^verbatim>\<open>precip_c\<close> of line 514 and
  \<^verbatim>\<open>phi\<close>.
\<close>

definition init_cascades ::
  "('r, 'd, 'n, 'v, 's) collab \<Rightarrow> opts \<Rightarrow> field list \<Rightarrow> bmask option \<Rightarrow>
    decomp \<times> field list list \<times> px list list" where
  "init_cascades C cfg fr mask_thr =
    (let n = n_cascade_levels cfg;
         ds = map (\<lambda>i. decomp_method C n (fr ! i) mask_thr) [0..<ar_order cfg + 1];
         pc = stack_cascades C ds n;
         gamma = map (\<lambda>i. temporal_autocorrelation C (pc ! i) mask_thr) [0..<n];
         gamma2 = (if ar_order cfg = 2
                   then map (\<lambda>g. g[1 := adjust_lag2_corrcoef2 C (g ! 0) (g ! 1)]) gamma
                   else gamma)
     in (last ds, map (\<lambda>i. py_lastn (ar_order cfg) (pc ! i)) [0..<n],
         map (estimate_ar_params_yw C) gamma2))"

text \<open>
  Lines 527-533: the generators of the members, \<^verbatim>\<open>randgen_prec[j]\<close> with
  \<^verbatim>\<open>randgen_motion[j]\<close>, each seeded with a number drawn from the one before. The
  generator of a list is the object the next seed was drawn from, so it is stored as
  advanced by that draw.
\<close>

fun seed_chain :: "('r, 'd, 'n, 'v, 's) collab \<Rightarrow> nat \<Rightarrow> int option \<Rightarrow> ('r \<times> 'r) list" where
  "seed_chain C 0 sd = []"
| "seed_chain C (Suc k) sd =
    (let (s1, rp) = randint C (random_state C sd);
         (s2, rm) = randint C (random_state C (Some s1))
     in (rp, rm) # seed_chain C k (Some s2))"

text \<open>
  Lines 535-547: the velocity perturbators, after the lookup of their method. \<open>rngs\<close>
  is \<open>None\<close> when \<^verbatim>\<open>randgen_motion\<close> was not bound (lines 523-525) and \<open>vp\<close>
  is \<open>None\<close> when \<^verbatim>\<open>vp_par\<close> was not; the body of the loop reads both, in this
  order, and then divides by \<^verbatim>\<open>kmperpixel\<close>.
\<close>

definition init_vps ::
  "('r, 'd, 'n, 'v, 's) collab \<Rightarrow> opts \<Rightarrow> field \<Rightarrow> ('r \<times> 'r) list option \<Rightarrow>
    (real list \<times> real list) option \<Rightarrow> error + 'v option list" where
  "init_vps C cfg velocity rngs vp =
    (case vel_pert_method cfg of
       Some name \<Rightarrow>
         bindE (noise_get_method C name) (\<lambda>u.
           if n_ens_members cfg = 0 then Inr []
           else (case rngs of
               None \<Rightarrow> Inl (NameError ''randgen_motion'')
             | Some rs \<Rightarrow>
                 (case vp of
                    None \<Rightarrow> Inl (NameError ''vp_par'')
                  | Some (vp_par, vp_perp) \<Rightarrow>
                      (case kmperpixel cfg of
                         None \<Rightarrow> Inl (TypeError ''unsupported operand type(s) for /'')
                       | Some km \<Rightarrow>
                           if km = 0 then Inl (ZeroDivisionError ''float division by zero'')
                           else Inr (map (\<lambda>(rp, rm). Some (init_vel_noise C velocity (1 / km)
                                  (timestep cfg) rm vp_par vp_perp)) rs)))))
     | None \<Rightarrow> Inr (replicate (n_ens_members cfg) None))"

text \<open>Lines 552-553.\<close>

definition init_mu_0 :: "opts \<Rightarrow> field \<Rightarrow> error + px option" where
  "init_mu_0 cfg lastf =
    (if probmatching_method cfg = Some ''mean'' then
       bindE (ge_thr lastf (precip_thr cfg)) (\<lambda>b. Inr (Some (np_mean (select b lastf))))
     else Inr None)"

text \<open>
  \<^verbatim>\<open>[precip_c[0][i].copy() for i in range(n_cascade_levels)]\<close> (lines 565 and 581):
  the cascades of member 0, which are those of line 514.
\<close>

definition member0_cascades :: "opts \<Rightarrow> field list list \<Rightarrow> error + field list list" where
  "member0_cascades cfg pc =
    (if n_cascade_levels cfg = 0 then Inr []
     else if n_ens_members cfg = 0 then Inl (IndexError ''list index out of range'')
     else Inr pc)"

text \<open>
  Lines 557-578: the mask of the method. The result is the environment with the names
  the method binds, and the incremental mask of each member. \<open>shp\<close> is the shape of
  the input fields.
\<close>

definition init_mask ::
  "('r, 'd, 'n, 'v, 's) collab \<Rightarrow> opts \<Rightarrow> field list list \<Rightarrow> decomp \<Rightarrow> nat list \<Rightarrow>
    ('n, 's) env \<Rightarrow> error + (('n, 's) env \<times> field option)" where
  "init_mask C cfg pc pd shp E =
    (if mask_method cfg \<noteq> None then
       bindE (ge_thr (precip0 E) (precip_thr cfg)) (\<lambda>mp.
         if mask_method cfg = Some ''obs'' then Inr (E\<lparr>mask_prec := Some mp\<rparr>, None)
         else if mask_method cfg = Some ''sprog'' then
           (let w = real (length (filter id (elems mp))) / real (shp ! 1 * shp ! 2)
            in bindE (member0_cascades cfg pc) (\<lambda>pm.
                 if n_ens_members cfg = 0 then Inl (IndexError ''list index out of range'')
                 else Inr (E\<lparr>mask_prec := Some mp, war := Some w, precip_m := Some pm,
                        precip_m_d := Some pd\<rparr>, None)))
         else if mask_method cfg = Some ''incremental'' then
           (case timestep cfg of
              None \<Rightarrow> Inl (TypeError ''unsupported operand type(s) for *'')
            | Some dt \<Rightarrow>
                (case kmperpixel cfg of
                   None \<Rightarrow> Inl (TypeError ''unsupported operand type(s) for /'')
                 | Some km \<Rightarrow>
                     if km = 0 then Inl (ZeroDivisionError ''float division by zero'')
                     else
                       (let rim = (case mask_rim cfg of Some r \<Rightarrow> r | None \<Rightarrow> 10);
                            f = (case mask_f cfg of Some x \<Rightarrow> x | None \<Rightarrow> 1);
                            n = f * dt / km;
                            st = iterate_structure C (py_int ((n - 1) / 2))
                        in bindE (compute_incremental_mask C mp st rim) (\<lambda>mk.
                             Inr (E\<lparr>incr := Some (st, rim)\<rparr>, Some mk)))))
         else Inr (E\<lparr>mask_prec := Some mp\<rparr>, None))
     else Inr (E, None))"

text \<open>Everything before the main loop: the shared environment and the members.\<close>

definition init_forecast ::
  "('r, 'd, 'n, 'v, 's) collab \<Rightarrow> opts \<Rightarrow> field \<Rightarrow> field \<Rightarrow>
    error + (('n, 's) env \<times> ('r, 'd, 'v) member list)" where
  "init_forecast C cfg precip velocity =
    bindE (vel_pert_params C cfg) (\<lambda>vp.
    bindE (get_methods C cfg precip) (\<lambda>u.
    bindE (prepare_precip C cfg precip velocity) (\<lambda>(fr, dm, mask_thr).
    bindE (init_noise_coeffs C cfg fr) (\<lambda>nz.
    (let (pd, pc, ph) = init_cascades C cfg fr mask_thr;
         rngs = (if noise_method cfg \<noteq> None
                 then Some (seed_chain C (n_ens_members cfg) (seed cfg)) else None)
     in bindE (init_vps C cfg velocity rngs vp) (\<lambda>vs.
        bindE (init_mu_0 cfg (last fr)) (\<lambda>mu.
        bindE (init_mask C cfg pc pd (shape precip)
            \<lparr>precip0 = last fr, domain_mask = dm, phi = ph, noise_env = nz, mu_0 = mu,
             war = None, incr = None, mask_prec = None, precip_m = None,
             precip_m_d = None\<rparr>) (\<lambda>(E, mk).
        bindE (if noise_method cfg = None \<and> precip_m E = None
               then bindE (member0_cascades cfg pc) (\<lambda>pm. Inr (E\<lparr>precip_m := Some pm\<rparr>))
               else Inr E) (\<lambda>E'.
        Inr (E', map (\<lambda>j.
          \<lparr>precip_c = pc, precip_d = pd,
           randgen_prec = (case rngs of None \<Rightarrow> None | Some rs \<Rightarrow> Some (fst (rs ! j))),
           vps = vs ! j, displacement = None, precip_f = [], mask_prec_j = mk,
           precip_f_prev = last fr, t_prev = 0, t_total = 0\<rparr>)
          [0..<n_ens_members cfg]))))))))))"

subsection \<open>The main loop (lines 597-608 and 764-846)\<close>

text \<open>
  Lines 597-603 and 765-768: the simulation steps \<open>t\<close> with their subtimesteps. An
  integer \<^verbatim>\<open>timesteps\<close> gives the steps \<open>0, ..., timesteps\<close>, each with itself as
  its subtimestep; otherwise the times, after a leading \<open>0\<close>, are binned by
  \<^verbatim>\<open>binned_timesteps\<close>, which returns the indices of the times of each step.
\<close>

definition list_schedule ::
  "('r, 'd, 'n, 'v, 's) collab \<Rightarrow> real list \<Rightarrow> error + (nat \<times> real list) list" where
  "list_schedule C l =
    (let original_timesteps = 0 # l
     in bindE (binned_timesteps C original_timesteps) (\<lambda>bins.
          Inr (map (\<lambda>(t, idx). (t, map (\<lambda>i. original_timesteps ! i) idx))
                 (enumerate 0 bins))))"

definition schedule ::
  "('r, 'd, 'n, 'v, 's) collab \<Rightarrow> timesteps \<Rightarrow> error + (nat \<times> real list) list" where
  "schedule C ts = (case ts of
      TInt n \<Rightarrow> Inr (map (\<lambda>t. (t, [real t])) [0..<nat (n + 1)])
    | TList l \<Rightarrow> list_schedule C l
    | TSeq l \<Rightarrow> list_schedule C l)"

text \<open>
  Lines 787-803: the AR(p) model without perturbations and, under the method
  \<^verbatim>\<open>sprog\<close>, the mask computed from it. \<^verbatim>\<open>precip_m\<close> is a list here (lines
  565 and 581).
\<close>

definition advance_sprog ::
  "('r, 'd, 'n, 'v, 's) collab \<Rightarrow> opts \<Rightarrow> ('n, 's) env \<Rightarrow> error + ('n, 's) env" where
  "advance_sprog C cfg E =
    (if noise_method cfg = None \<or> mask_method cfg = Some ''sprog'' then
       (case precip_m E of
          None \<Rightarrow> Inl (TypeError ''NoneType object is not subscriptable'')
        | Some pm \<Rightarrow>
            (let pm' = map (\<lambda>i. iterate_ar_model C (pm ! i) (phi E ! i) None)
                         [0..<n_cascade_levels cfg]
             in (case precip_m_d E of
                   None \<Rightarrow> Inl (NameError ''precip_m_d'')
                 | Some d \<Rightarrow>
                     (let (d', f) = recompose C cfg d pm'
                      in if mask_method cfg = Some ''sprog'' then
                           (case war E of
                              None \<Rightarrow> Inl (NameError ''war'')
                            | Some w \<Rightarrow>
                                Inr (E\<lparr>precip_m := Some pm', precip_m_d := Some d',
                                  mask_prec := Some (compute_percentile_mask C f w)\<rparr>))
                         else Inr (E\<lparr>precip_m := Some pm', precip_m_d := Some d'\<rparr>)))))
     else Inr E)"

text \<open>
  Lines 825-828: the callback. The result is the list of the arguments it is called
  with in this step: none or one.
\<close>

definition run_callback :: "opts \<Rightarrow> field list list \<Rightarrow> error + field list" where
  "run_callback cfg res =
    (if callback cfg then
       bindE (mapE asarray res) (\<lambda>as.
       bindE (np_stack as) (\<lambda>precip_f_stacked.
         if 0 < shape precip_f_stacked ! 1 then Inr [squeeze precip_f_stacked]
         else Inr []))
     else Inr [])"

text \<open>
  One pass of the loop of line 764. The members are computed one after the other, as
  without \<^verbatim>\<open>dask\<close>; with it the results are collected in the order of the members
  as well. The state is the environment, the members and the arguments of the calls of
  the callback so far.
\<close>

definition step ::
  "('r, 'd, 'n, 'v, 's) collab \<Rightarrow> opts \<Rightarrow> field \<Rightarrow>
    ('n, 's) env \<times> ('r, 'd, 'v) member list \<times> field list \<Rightarrow> nat \<times> real list \<Rightarrow>
    error + (('n, 's) env \<times> ('r, 'd, 'v) member list \<times> field list)" where
  "step C cfg velocity st ts =
    (case (st, ts) of ((E, ms, calls), (t, subtimesteps)) \<Rightarrow>
       bindE (advance_sprog C cfg E) (\<lambda>E'.
       bindE (mapE (\<lambda>m. worker C cfg velocity E' m t subtimesteps) ms) (\<lambda>res.
       bindE (run_callback cfg (map fst res)) (\<lambda>new_calls.
       Inr (E',
            map (\<lambda>(outs, m). if return_output cfg then m\<lparr>precip_f := precip_f m @ outs\<rparr>
                   else m) res,
            calls @ new_calls)))))"

fun main_loop ::
  "('r, 'd, 'n, 'v, 's) collab \<Rightarrow> opts \<Rightarrow> field \<Rightarrow> (nat \<times> real list) list \<Rightarrow>
    ('n, 's) env \<times> ('r, 'd, 'v) member list \<times> field list \<Rightarrow>
    error + (('n, 's) env \<times> ('r, 'd, 'v) member list \<times> field list)" where
  "main_loop C cfg velocity [] st = Inr st"
| "main_loop C cfg velocity (ts # rest) st =
    bindE (step C cfg velocity st ts) (main_loop C cfg velocity rest)"

text \<open>Lines 839-846.\<close>

definition assemble :: "opts \<Rightarrow> ('r, 'd, 'v) member list \<Rightarrow> error + field option" where
  "assemble cfg ms =
    (if return_output cfg then
       bindE (mapE (\<lambda>m. np_stack (precip_f m)) ms) (\<lambda>rows.
       bindE (np_stack rows) (\<lambda>outarr. Inr (Some outarr)))
     else Inr None)"

text \<open>
  \<^verbatim>\<open>forecast\<close>, with \<^verbatim>\<open>measure_time\<close> off: the value it returns and the
  arguments of the calls of the callback, in order.
\<close>

definition forecast ::
  "('r, 'd, 'n, 'v, 's) collab \<Rightarrow> opts \<Rightarrow> field \<Rightarrow> field \<Rightarrow> timesteps \<Rightarrow>
    error + (field option \<times> field list)" where
  "forecast C cfg precip velocity ts =
    bindE (validate cfg precip velocity ts) (\<lambda>u.
    bindE (init_forecast C cfg precip velocity) (\<lambda>(E, ms).
    bindE (schedule C ts) (\<lambda>sched.
    bindE (main_loop C cfg velocity sched (E, ms, [])) (\<lambda>(E', ms', calls).
    bindE (assemble cfg ms') (\<lambda>out. Inr (out, calls))))))"

subsection \<open>A concrete instance: persistence in place of the collaborators\<close>

text \<open>
  Modelled from the spec: \<^verbatim>\<open>nowcast_utils.binned_timesteps\<close> is not among the source
  files. Section 4.8: "an explicit ascending list of (possibly fractional) future times
  [...] for each discrete simulation step t = 0..T, the set of requested output times
  whose integer step equals t (binned)". The integer step of a time is its integer part,
  as \<^verbatim>\<open>worker\<close> has it: lines 713-719 blend the previous and the new field of a
  step with the weight \<^verbatim>\<open>t_sub - int(t_sub)\<close>, so the step of a time between \<open>t\<close>
  and \<open>t + 1\<close> is step \<open>t\<close> (the scenario of section 8, which has the time 0.5
  in step 1, does not fit these lines). \<open>T\<close> is the last time rounded up. A list
  that is not ascending or that holds a negative time is refused. The bins hold the
  indices of the times.
\<close>

definition binned_timesteps_spec :: "real list \<Rightarrow> error + nat list list" where
  "binned_timesteps_spec ts =
    (if sort ts \<noteq> ts then Inl (ValueError ''timesteps is not in ascending order'')
     else if list_ex (\<lambda>x. x < 0) ts then Inl (ValueError ''negative time steps are not allowed'')
     else Inr (map (\<lambda>t. filter (\<lambda>i. \<lfloor>ts ! i\<rfloor> = int t) [0..<length ts])
            [0..<nat \<lceil>last ts\<rceil> + 1]))"

text \<open>
  Collaborators for the examples: the extrapolation leaves a field where it is (for
  each of the times, a field on the grid of the motion field), a decomposition is copies
  of the field, and the AR(p) model keeps the newest cascade. The opaque values are of
  type \<open>unit\<close>. The lookups know the method names that the docstring of
  \<^verbatim>\<open>forecast\<close> mentions (lines 97-122 and 159-162) and the defaults of its
  signature (lines 44-58), and the Gaussian bandpass filter refuses fewer than three
  cascade levels, as the one of the library does.
\<close>

definition known :: "string list \<Rightarrow> string \<Rightarrow> error + unit" where
  "known names name =
    (if List.member names name then Inr () else Inl (ValueError ''unknown method''))"

definition persistence :: "(unit, unit, unit, unit, unit) collab" where
  "persistence = \<lparr>
    extrapolate_to = (\<lambda>f v k. f),
    extrapolate = (\<lambda>f v ts d.
      (case f of None \<Rightarrow> []
       | Some x \<Rightarrow> if shape x = tl (shape v) then map (\<lambda>t. x) ts else [], ())),
    decomp_method = (\<lambda>n f m. \<lparr>cascade_levels = replicate n f, means = [], stds = []\<rparr>),
    recomp_method = (\<lambda>d. case cascade_levels d of
        [] \<Rightarrow> \<lparr>shape = [], elems = []\<rparr> | f # fs \<Rightarrow> f),
    irfft2 = (\<lambda>f. f),
    stack_cascades = (\<lambda>ds n. map (\<lambda>i. map (\<lambda>d. cascade_levels d ! i) ds) [0..<n]),
    temporal_autocorrelation = (\<lambda>c m. [Fin 1]),
    adjust_lag2_corrcoef2 = (\<lambda>a b. b),
    estimate_ar_params_yw = (\<lambda>g. g @ [Fin 0]),
    iterate_ar_model = (\<lambda>x ph eps. tl x @ [last x]),
    init_noise = (\<lambda>fr. ()),
    generate_noise = (\<lambda>p r. (\<lparr>shape = [1, 2], elems = [Fin 0, Fin 0]\<rparr>, r)),
    compute_noise_stddev_adjs = (\<lambda>f thr mn p. [Fin 1]),
    random_state = (\<lambda>sd. ()),
    randint = (\<lambda>r. (0, r)),
    init_vel_noise = (\<lambda>v a b r p q. ()),
    generate_vel_noise = (\<lambda>p t.
      (\<lparr>shape = [2, 1, 2], elems = [Fin 0, Fin 0, Fin 0, Fin 0]\<rparr>, p)),
    default_p_par = [10.88, 0.23, -7.68],
    default_p_perp = [5.76, 0.31, -2.72],
    iterate_structure = (\<lambda>k. ()),
    kr1 = (),
    binary_dilation = (\<lambda>b st. b),
    compute_percentile_mask = (\<lambda>f w. map_arr (\<lambda>x. px_le (Fin 2) x) f),
    nonparam_match_empirical_cdf = (\<lambda>f g. f),
    binned_timesteps = binned_timesteps_spec,
    utils_get_method = known [''numpy'', ''pyfftw''],
    cascade_get_method = known [''fft'', ''gaussian'', ''uniform''],
    filter_method = (\<lambda>name shp n.
      if name = ''gaussian'' \<and> n < 3 then Inl (ValueError ''n must be greater than 2'')
      else Inr ()),
    extrapolation_get_method = known [''semilagrangian''],
    noise_get_method = known [''parametric'', ''nonparametric'', ''ssft'', ''nested'', ''bps'']
  \<rparr>"

text \<open>
  Two input fields of shape \<open>1 \<times> 2\<close>, the newer one with a missing pixel, a motion field
  of zeros, and the options of a deterministic nowcast of two members with three
  cascade levels and the mask of the method \<^verbatim>\<open>sprog\<close>; the method names are the
  defaults.
\<close>

definition precip_ex :: field where
  "precip_ex = \<lparr>shape = [2, 1, 2], elems = [Fin 1, Fin 2, Fin 3, NaN]\<rparr>"

definition velocity_ex :: field where
  "velocity_ex = \<lparr>shape = [2, 1, 2], elems = [Fin 0, Fin 0, Fin 0, Fin 0]\<rparr>"

definition cfg_ex :: opts where
  "cfg_ex = \<lparr>n_ens_members = 2, n_cascade_levels = 3, precip_thr = Some 2,
    kmperpixel = None, timestep = None, noise_method = None, noise_stddev_adj = None,
    ar_order = 1, vel_pert_method = None, conditional = False,
    probmatching_method = None, mask_method = Some ''sprog'', callback = True,
    return_output = True, seed = None, domain = ''spatial'', p_par = None, p_perp = None,
    mask_rim = None, mask_f = None, extrap_method = ''semilagrangian'',
    decomp_method_name = ''fft'', bandpass_filter_method = ''gaussian'',
    fft_method = ''numpy''\<rparr>"

text \<open>
  Two input fields of shape \<open>3 \<times> 3\<close>, the newer one with the values \<open>1, ..., 9\<close>, and
  a motion field of zeros.
\<close>

definition zeros :: "nat list \<Rightarrow> field" where
  "zeros shp = \<lparr>shape = shp, elems = replicate (prod_list shp) (Fin 0)\<rparr>"

definition newest_3x3 :: "px list" where
  "newest_3x3 = [Fin 1, Fin 2, Fin 3, Fin 4, Fin 5, Fin 6, Fin 7, Fin 8, Fin 9]"

definition precip_3x3 :: field where
  "precip_3x3 = \<lparr>shape = [2, 3, 3],
     elems = [Fin 0, Fin 1, Fin 2, Fin 3, Fin 4, Fin 5, Fin 6, Fin 7, Fin 8] @ newest_3x3\<rparr>"

definition velocity_3x3 :: field where
  "velocity_3x3 = zeros [2, 3, 3]"

text \<open>
  Collaborators with noise: the generator returns the field \<open>eps\<close>, and the AR(p)
  model adds the noise of the level to the newest cascade.
\<close>

definition with_noise :: "field \<Rightarrow> (unit, unit, unit, unit, unit) collab" where
  "with_noise eps = persistence\<lparr>
     generate_noise := (\<lambda>p r. (eps, r)),
     iterate_ar_model := (\<lambda>x ph e.
       tl x @ [case e of None \<Rightarrow> last x | Some n \<Rightarrow> zip_arr px_add (last x) n])\<rparr>"

text \<open>
  The options of a nowcast with noise that matches the mean and has no mask, and the
  noise of the example: 1 at every pixel.
\<close>

definition cfg_c1 :: opts where
  "cfg_c1 = cfg_ex\<lparr>probmatching_method := Some ''mean'', mask_method := None,
     noise_method := Some ''nonparametric'', callback := False\<rparr>"

definition noise_c1 :: field where
  "noise_c1 = \<lparr>shape = [3, 3], elems = replicate 9 (Fin 1)\<rparr>"

text \<open>The options of the example with a perturbed motion field and no noise.\<close>

definition cfg_c10 :: opts where
  "cfg_c10 = cfg_ex\<lparr>vel_pert_method := Some ''bps'', kmperpixel := Some 1,
    timestep := Some 5\<rparr>"

subsection \<open>Well-formed inputs\<close>

text \<open>An array has as many elements as its shape says.\<close>

definition wf_array :: "'a ndarray \<Rightarrow> bool" where
  "wf_array a \<longleftrightarrow> length (elems a) = prod_list (shape a)"

subsection \<open>Notions of the claims\<close>

text \<open>A computation raises nothing.\<close>

definition succeeds :: "error + 'a \<Rightarrow> bool" where
  "succeeds r = (case r of Inl e \<Rightarrow> False | Inr x \<Rightarrow> True)"

text \<open>
  The linear blend \<open>(1 - f) * prev + f * new\<close> of two fields, pixel by pixel, and the
  field that claim C8 expects to be advected to the time \<open>t_sub\<close>: the blend at the
  fractional part \<open>f\<close> of \<open>t_sub\<close> when \<open>f\<close> is positive, the previous field
  otherwise.
\<close>

definition linear_blend :: "real \<Rightarrow> field \<Rightarrow> field \<Rightarrow> field" where
  "linear_blend f prev new =
    \<lparr>shape = shape prev,
     elems = map2 (\<lambda>a b. px_add (px_mul (Fin (1 - f)) a) (px_mul (Fin f) b))
       (elems prev) (elems new)\<rparr>"

definition advected_field :: "real \<Rightarrow> field \<Rightarrow> field \<Rightarrow> field" where
  "advected_field t_sub prev new =
    (let f = t_sub - of_int \<lfloor>t_sub\<rfloor>
     in if 0 < f then linear_blend f prev new else prev)"

text \<open>
  Pixel \<open>i\<close> lies outside the precipitation mask that \<^verbatim>\<open>worker\<close> applies: outside
  the boolean mask (methods \<^verbatim>\<open>obs\<close> and \<^verbatim>\<open>sprog\<close>), or with the weight zero in
  the incremental mask of the member.
\<close>

definition outside_mask :: "opts \<Rightarrow> ('n, 's) env \<Rightarrow> ('r, 'd, 'v) member \<Rightarrow> nat \<Rightarrow> bool" where
  "outside_mask cfg E m i =
    (if mask_method cfg = Some ''incremental'' then
       (case mask_prec_j m of
          Some w \<Rightarrow> i < length (elems w) \<and> elems w ! i = Fin 0
        | None \<Rightarrow> False)
     else
       (case mask_prec E of
          Some b \<Rightarrow> i < length (elems b) \<and> \<not> elems b ! i
        | None \<Rightarrow> False))"

subsection \<open>Further examples\<close>

text \<open>
  A member whose previous forecast field is \<open>[1, 2]\<close> and whose next one is
  \<open>[3, 5]\<close>, with its environment, for a deterministic step without a mask.
\<close>

definition fld :: "px list \<Rightarrow> field" where
  "fld xs = \<lparr>shape = [1, length xs], elems = xs\<rparr>"

definition member_ex :: "(unit, unit, unit) member" where
  "member_ex = \<lparr>precip_c = replicate 3 [fld [Fin 3, Fin 5]],
     precip_d = \<lparr>cascade_levels = replicate 3 (fld [Fin 3, Fin 5]), means = [], stds = []\<rparr>,
     randgen_prec = None, vps = None, displacement = None, precip_f = [],
     mask_prec_j = None, precip_f_prev = fld [Fin 1, Fin 2], t_prev = 0, t_total = 0\<rparr>"

definition env_ex :: "(unit, unit) env" where
  "env_ex = \<lparr>precip0 = fld [Fin 1, Fin 2],
     domain_mask = \<lparr>shape = [1, 2], elems = [False, False]\<rparr>,
     phi = replicate 3 [Fin 1, Fin 0],
     noise_env = None, mu_0 = None, war = None, incr = None, mask_prec = None,
     precip_m = Some (replicate 3 [fld [Fin 3, Fin 5]]), precip_m_d = None\<rparr>"

definition cfg_c8 :: opts where
  "cfg_c8 = cfg_ex\<lparr>mask_method := None\<rparr>"

definition step_c8 :: "field list \<times> (unit, unit, unit) member" where
  "step_c8 = projr (worker persistence cfg_c8 velocity_ex env_ex member_ex 0 [0.5])"

text \<open>
  A nowcast with the incremental mask at the threshold 5 and the noise \<open>[6, 1]\<close>, from
  the observations \<open>[1, 2]\<close> and \<open>[3, 6]\<close>, so that the recomposed field of the
  first step is \<open>[9, 7]\<close>: its initial state and the first step of its member 0.
\<close>

definition precip_c3 :: field where
  "precip_c3 = \<lparr>shape = [2, 1, 2], elems = [Fin 1, Fin 2, Fin 3, Fin 6]\<rparr>"

definition noise_c3 :: field where
  "noise_c3 = fld [Fin 6, Fin 1]"

definition cfg_c3 :: opts where
  "cfg_c3 = cfg_ex\<lparr>mask_method := Some ''incremental'', precip_thr := Some 5,
     kmperpixel := Some 1, timestep := Some 5, noise_method := Some ''nonparametric''\<rparr>"

definition init_c3 :: "(unit, unit) env \<times> (unit, unit, unit) member list" where
  "init_c3 = projr (init_forecast (with_noise noise_c3) cfg_c3 precip_c3 velocity_ex)"

definition step_c3 :: "field list \<times> (unit, unit, unit) member" where
  "step_c3 = projr (worker (with_noise noise_c3) cfg_c3 velocity_ex (fst init_c3)
     (snd init_c3 ! 0) 0 [0])"

text \<open>
  Modelled from the spec: the probability matching of the mode \<^verbatim>\<open>cdf\<close>
  (\<^verbatim>\<open>nonparam_match_empirical_cdf\<close>) is not among the source files. The glossary:
  "post-hoc rescaling of a forecast field's value distribution to match a reference
  field's distribution (by rank or by conditional mean)"; section 7: "the rank order of
  forecast pixel values is preserved after rescaling". The pixel of rank \<open>k\<close> of the
  forecast field gets the \<open>k\<close>-th smallest value of the reference field, pixels of equal
  value ranked in the order of the array.
\<close>

fun px_insort :: "px \<Rightarrow> px list \<Rightarrow> px list" where
  "px_insort x [] = [x]"
| "px_insort x (y # ys) = (if px_less y x then y # px_insort x ys else x # y # ys)"

definition rank_match :: "field \<Rightarrow> field \<Rightarrow> field" where
  "rank_match f g =
    (let sorted_g = foldr px_insort (elems g) [];
         xs = elems f
     in \<lparr>shape = shape f,
         elems = map (\<lambda>i. sorted_g ! length (filter (\<lambda>j. px_less (xs ! j) (xs ! i)
                     \<or> (xs ! j = xs ! i \<and> j < i)) [0..<length xs]))
                   [0..<length xs]\<rparr>)"

text \<open>
  An extrapolator that moves a field of one row by one pixel to the right, as a uniform
  motion of one pixel per time step does: the pixels that flow in are filled with the
  minimum of the field (\<^verbatim>\<open>"min"\<close>, line 410) or are missing (the default of the
  calls of lines 731 and 751).
\<close>

definition advection_right :: "(unit, unit, unit, unit, unit) collab" where
  "advection_right = persistence\<lparr>
     extrapolate_to := (\<lambda>f v k.
       ((\<lambda>g. g\<lparr>elems := (case np_nanmin (elems g) of Inr mn \<Rightarrow> mn | Inl e \<Rightarrow> NaN)
                  # butlast (elems g)\<rparr>) ^^ k) f),
     extrapolate := (\<lambda>f v ts d.
       (case f of None \<Rightarrow> []
        | Some x \<Rightarrow> if shape x = tl (shape v)
            then map (\<lambda>t. x\<lparr>elems := NaN # butlast (elems x)\<rparr>) ts else [], ()))\<rparr>"

definition velocity_right :: field where
  "velocity_right = \<lparr>shape = [2, 1, 2], elems = [Fin 1, Fin 1, Fin 0, Fin 0]\<rparr>"

text \<open>The initial state of the deterministic nowcast and the first step of its member 0.\<close>

definition init_c4 :: "(unit, unit) env \<times> (unit, unit, unit) member list" where
  "init_c4 = projr (init_forecast persistence cfg_ex precip_ex velocity_ex)"

definition step_c4 :: "field list \<times> (unit, unit, unit) member" where
  "step_c4 = projr (worker persistence cfg_ex velocity_ex (fst init_c4) (snd init_c4 ! 0) 0 [0])"

text \<open>
  The number of requested output times (an integer \<open>n\<close> requests the times
  \<open>1, ..., n\<close>) and the number of those that are positive.
\<close>

definition n_requested :: "timesteps \<Rightarrow> nat" where
  "n_requested ts = (case ts of TInt n \<Rightarrow> nat n | TList l \<Rightarrow> length l | TSeq l \<Rightarrow> length l)"

definition n_positive :: "timesteps \<Rightarrow> nat" where
  "n_positive ts = (case ts of
      TInt n \<Rightarrow> nat n
    | TList l \<Rightarrow> length (filter (\<lambda>x. 0 < x) l)
    | TSeq l \<Rightarrow> length (filter (\<lambda>x. 0 < x) l))"

text \<open>
  What is assumed of the collaborators for the shape of the output.
  \<^verbatim>\<open>binned_timesteps\<close> is given the requested times after a leading \<open>0\<close>; when it
  returns, every index of this list is in exactly one bin. The extrapolator returns
  fields on the grid of the motion field.
\<close>

definition binning_contract :: "('r, 'd, 'n, 'v, 's) collab \<Rightarrow> real list \<Rightarrow> bool" where
  "binning_contract C l =
    (case binned_timesteps C (0 # l) of
       Inl e \<Rightarrow> True
     | Inr bins \<Rightarrow> mset (concat bins) = mset [0..<Suc (length l)])"

definition times_contract :: "('r, 'd, 'n, 'v, 's) collab \<Rightarrow> timesteps \<Rightarrow> bool" where
  "times_contract C ts =
    (case ts of TInt n \<Rightarrow> True | TList l \<Rightarrow> binning_contract C l | TSeq l \<Rightarrow> binning_contract C l)"

definition extrapolate_shape :: "('r, 'd, 'n, 'v, 's) collab \<Rightarrow> bool" where
  "extrapolate_shape C \<longleftrightarrow>
    (\<forall>f v tms d. list_all (\<lambda>x. shape x = tl (shape v)) (fst (extrapolate C f v tms d)))"

definition total_outputs :: "(nat \<times> real list) list \<Rightarrow> nat" where
  "total_outputs sched = sum_list (map (\<lambda>ts. length (filter (\<lambda>x. 0 < x) (snd ts))) sched)"

text \<open>The invariant of the loop: every member has \<open>K\<close> output fields, all of shape \<open>s\<close>.\<close>

definition outputs_inv :: "nat \<Rightarrow> nat list \<Rightarrow> ('r, 'd, 'v) member list \<Rightarrow> bool" where
  "outputs_inv K s ms \<longleftrightarrow>
    list_all (\<lambda>m. length (precip_f m) = K \<and> list_all (\<lambda>x. shape x = s) (precip_f m)) ms"

subsection \<open>The calls of the callback\<close>

text \<open>
  The number of output fields of a simulation step, for each member: \<^verbatim>\<open>worker\<close> appends a
  field for every subtimestep that is positive (lines 712 and 737).
\<close>

definition n_outputs :: "nat \<times> real list \<Rightarrow> nat" where
  "n_outputs st = length (filter (\<lambda>x. 0 < x) (snd st))"

text \<open>
  The stack of the output fields of a step, a list of fields for each member, with the
  axes of length one dropped.
\<close>

definition callback_arg :: "field list list \<Rightarrow> field" where
  "callback_arg outs =
    squeeze \<lparr>shape = length outs # length (hd outs) # shape (hd (hd outs)),
             elems = concat (map (\<lambda>os. concat (map elems os)) outs)\<rparr>"


subsection \<open>Variants of the examples\<close>

text \<open>
  Variants of the nowcast with the incremental mask: the older observation misses
  pixel 0; the mean is matched; the distribution is matched, by rank.
\<close>

definition precip_c3_nan :: field where
  "precip_c3_nan = \<lparr>shape = [2, 1, 2], elems = [NaN, Fin 2, Fin 3, Fin 6]\<rparr>"

definition cfg_c3_mean :: opts where
  "cfg_c3_mean = cfg_c3\<lparr>probmatching_method := Some ''mean''\<rparr>"

definition cfg_c3_cdf :: opts where
  "cfg_c3_cdf = cfg_c3\<lparr>probmatching_method := Some ''cdf''\<rparr>"

definition ranked :: "(unit, unit, unit, unit, unit) collab" where
  "ranked = (with_noise noise_c3)\<lparr>nonparam_match_empirical_cdf := rank_match\<rparr>"

text \<open>The options of the deterministic nowcast without a callback.\<close>

definition cfg_c5 :: opts where
  "cfg_c5 = cfg_ex\<lparr>callback := False\<rparr>"

text \<open>The options of the deterministic nowcast with one member.\<close>

definition cfg_c7 :: opts where
  "cfg_c7 = cfg_ex\<lparr>n_ens_members := 1\<rparr>"

section \<open>Properties\<close>

subsection \<open>Sequencing\<close>

lemma bindE_Inr [simp]: "bindE (Inr x) f = f x"
  by (simp add: bindE_def)

lemma bindE_Inl [simp]: "bindE (Inl e) f = Inl e"
  by (simp add: bindE_def)

lemma bindE_eq_Inr: "bindE m f = Inr y \<longleftrightarrow> (\<exists>x. m = Inr x \<and> f x = Inr y)"
  by (cases m) simp_all

subsection \<open>Validation\<close>

lemma sort_neq_iff: "sort l \<noteq> l \<longleftrightarrow> \<not> sorted l"
  by (metis sorted_sort sorted_sort_id)

lemma check_inputs_unsorted:
  assumes "\<not> sorted l"
  shows "\<exists>msg. check_inputs precip velocity (TList l) order = Inl (ValueError msg)"
  using assms by (simp add: check_inputs_def sort_neq_iff)

text \<open>
  C1. The claim: every call with \<^verbatim>\<open>probmatching_method='mean'\<close> and
  \<^verbatim>\<open>mask_method=None\<close> fails with a \<^verbatim>\<open>ValueError\<close> during input validation.
  The docstring requires the mask for the mean matching (lines 139-140), and the other
  requirements of the docstring are checked in lines 286-308, but this one is not: the
  validation never reads \<^verbatim>\<open>probmatching_method\<close>, so it accepts the mean matching
  wherever it accepts no matching. At the call below, of two members on a grid of
  \<open>3 \<times> 3\<close> pixels with three cascade levels, it passes, and the forecast is computed,
  its mean shifted (lines 691-694): each pixel of the input with the noise 1 added is
  lowered by \<open>1 / 2\<close>.
\<close>

theorem C1_mean_without_mask_passes_validation:
  "validate (cfg\<lparr>probmatching_method := Some ''mean'', mask_method := None\<rparr>) precip velocity ts
     = validate (cfg\<lparr>probmatching_method := None, mask_method := None\<rparr>) precip velocity ts
   \<and> probmatching_method cfg_c1 = Some ''mean'' \<and> mask_method cfg_c1 = None
   \<and> validate cfg_c1 precip_3x3 velocity_3x3 (TInt 1) = Inr ()
   \<and> forecast (with_noise noise_c1) cfg_c1 precip_3x3 velocity_3x3 (TInt 1)
     = Inr (Some \<lparr>shape = [2, 1, 3, 3],
              elems = [Fin (3 / 2), Fin (5 / 2), Fin (7 / 2), Fin (9 / 2), Fin (11 / 2),
                       Fin (13 / 2), Fin (15 / 2), Fin (17 / 2), Fin (19 / 2),
                       Fin (3 / 2), Fin (5 / 2), Fin (7 / 2), Fin (9 / 2), Fin (11 / 2),
                       Fin (13 / 2), Fin (15 / 2), Fin (17 / 2), Fin (19 / 2)]\<rparr>, [])"
proof -
  have "validate (cfg\<lparr>probmatching_method := Some ''mean'', mask_method := None\<rparr>)
      precip velocity ts
    = validate (cfg\<lparr>probmatching_method := None, mask_method := None\<rparr>) precip velocity ts"
    by (simp add: validate_def check_options_def split: sum.splits)
  moreover have "probmatching_method cfg_c1 = Some ''mean''" "mask_method cfg_c1 = None"
    by (simp_all add: cfg_c1_def)
  moreover have "validate cfg_c1 precip_3x3 velocity_3x3 (TInt 1) = Inr ()"
    by code_simp
  moreover have "forecast (with_noise noise_c1) cfg_c1 precip_3x3 velocity_3x3 (TInt 1)
     = Inr (Some \<lparr>shape = [2, 1, 3, 3],
              elems = [Fin (3 / 2), Fin (5 / 2), Fin (7 / 2), Fin (9 / 2), Fin (11 / 2),
                       Fin (13 / 2), Fin (15 / 2), Fin (17 / 2), Fin (19 / 2),
                       Fin (3 / 2), Fin (5 / 2), Fin (7 / 2), Fin (9 / 2), Fin (11 / 2),
                       Fin (13 / 2), Fin (15 / 2), Fin (17 / 2), Fin (19 / 2)]\<rparr>, [])"
    by code_simp
  ultimately show ?thesis by (intro conjI)
qed

text \<open>
  C2, as amended. The claim: an explicit list of timesteps that is not strictly
  ascending is rejected with a \<^verbatim>\<open>ValueError\<close> before any computation. The check of
  line 861 compares the list with its sorted copy, so it rejects the lists that are not
  ascending and accepts repeated values: for every list with an element smaller than
  the one before it, the validation fails with a \<^verbatim>\<open>ValueError\<close>, which is what
  \<^verbatim>\<open>forecast\<close> raises.
\<close>

theorem C2_unsorted_list_rejected:
  assumes "\<not> sorted l"
  shows "\<exists>msg. validate cfg precip velocity (TList l) = Inl (ValueError msg)
    \<and> forecast C cfg precip velocity (TList l) = Inl (ValueError msg)"
proof -
  obtain msg where "check_inputs precip velocity (TList l) (ar_order cfg) = Inl (ValueError msg)"
    using check_inputs_unsorted [OF assms] by blast
  then have "validate cfg precip velocity (TList l) = Inl (ValueError msg)"
    by (simp add: validate_def)
  then show ?thesis
    by (simp add: forecast_def)
qed

theorem C2_witness:
  "\<not> sorted [2, 1 :: real]
   \<and> (\<exists>msg. validate cfg_ex precip_ex velocity_ex (TList [2, 1]) = Inl (ValueError msg)
      \<and> forecast persistence cfg_ex precip_ex velocity_ex (TList [2, 1]) = Inl (ValueError msg))"
proof -
  have h: "\<not> sorted [2, 1 :: real]" by simp
  show ?thesis
    using h C2_unsorted_list_rejected [OF h, of cfg_ex precip_ex velocity_ex persistence]
    by simp
qed

text \<open>
  The list \<open>[1, 1, 2]\<close> is not strictly ascending, and the validation accepts it.
\<close>

theorem C2_counterexample:
  "\<not> sorted_wrt (<) [1, 1, 2 :: real]
   \<and> validate cfg_ex precip_ex velocity_ex (TList [1, 1, 2]) = Inr ()"
  by (simp add: validate_def check_inputs_def check_options_def cfg_ex_def precip_ex_def
      velocity_ex_def ndim_def)

subsection \<open>Initialisation\<close>

lemma mapE_Inr_map:
  "(\<And>x. x \<in> set xs \<Longrightarrow> f x = Inr (g x)) \<Longrightarrow> mapE f xs = Inr (map g xs)"
  by (induction xs) simp_all

lemma length3: "length s = 3 \<Longrightarrow> \<exists>a b c. s = [a, b, c]"
  by (cases s; simp; cases "tl s"; simp; cases "tl (tl s)"; simp)

lemma frames_length: "length (frames a) = hd (shape a)"
  by (simp add: frames_def Let_def)

lemma frame_nonempty:
  assumes "length xs = n * k" "i < n" "0 < k"
  shows "take k (drop (i * k) xs) \<noteq> []"
proof -
  have "Suc i \<le> n" using assms(2) by simp
  then have "Suc i * k \<le> n * k" by (rule mult_le_mono1)
  have "i * k < n * k" using assms(2,3) by simp
  then show ?thesis using assms by simp
qed

lemma frames_nonempty:
  assumes "wf_array a" "shape a = [n, M, N]" "0 < M" "0 < N" "f \<in> set (frames a)"
  shows "elems f \<noteq> []"
proof -
  have len: "length (elems a) = n * (M * N)"
    using assms(1,2) by (simp add: wf_array_def)
  from assms(5) obtain i where i: "i < n"
    and f: "f = \<lparr>shape = [M, N], elems = take (M * N) (drop (i * (M * N)) (elems a))\<rparr>"
    using assms(2) by (auto simp: frames_def Let_def)
  show ?thesis
    using frame_nonempty [OF len i] assms(3,4) f by simp
qed

lemma set_py_lastn: "set (py_lastn k xs) \<subseteq> set xs"
  by (auto simp: py_lastn_def dest: in_set_dropD)

lemma mapE_ok:
  "(\<And>x. x \<in> set xs \<Longrightarrow> \<exists>y. f x = Inr y) \<Longrightarrow> \<exists>ys. mapE f xs = Inr ys"
proof (induction xs)
  case Nil
  then show ?case by simp
next
  case (Cons x xs)
  obtain y where y: "f x = Inr y" using Cons.prems by auto
  obtain ys where ys: "mapE f xs = Inr ys" using Cons by auto
  show ?case by (simp add: y ys)
qed

lemma np_nanmin_ok: "xs \<noteq> [] \<Longrightarrow> \<exists>m. np_nanmin xs = Inr m"
  by (simp add: np_nanmin_def split: list.splits)

lemma prepare_precip_ok:
  assumes ci: "check_inputs precip velocity ts (ar_order cfg) = Inr ()"
    and wf: "wf_array precip"
    and pos: "0 < shape precip ! 1" "0 < shape precip ! 2"
    and thr: "conditional cfg \<Longrightarrow> precip_thr cfg \<noteq> None"
    and ex: "\<And>f v k. elems f \<noteq> [] \<Longrightarrow> elems (extrapolate_to C f v k) \<noteq> []"
  shows "\<exists>r. prepare_precip C cfg precip velocity = Inr r"
proof -
  have "ndim precip = 3"
    using ci by (simp add: check_inputs_def split: if_splits)
  then obtain n M N where shp: "shape precip = [n, M, N]"
    using length3 [of "shape precip"] by (auto simp: ndim_def)
  define fr where "fr = py_lastn (ar_order cfg + 1) (frames precip)"
  have fr_ne: "\<And>f. f \<in> set fr \<Longrightarrow> elems f \<noteq> []"
    using frames_nonempty [OF wf shp] pos shp set_py_lastn fr_def by fastforce
  obtain mt where mt: "(if conditional cfg then
                 bindE (mapE (\<lambda>f. ge_thr f (precip_thr cfg)) fr)
                   (\<lambda>ms. Inr (Some (logical_reduce (\<and>) True ms)))
               else Inr None) = Inr mt"
  proof (cases "conditional cfg")
    case True
    then obtain c where "precip_thr cfg = Some c" using thr by auto
    then have "\<exists>ms. mapE (\<lambda>f. ge_thr f (precip_thr cfg)) fr = Inr ms"
      by (intro mapE_ok) (simp add: ge_thr_def)
    then show ?thesis using that True by auto
  next
    case False
    then show ?thesis using that by simp
  qed
  define al where "al = map (\<lambda>i. if i < ar_order cfg
                     then extrapolate_to C (fr ! i) velocity (ar_order cfg - i) else fr ! i)
                   [0..<length fr]"
  have al_ne: "\<And>f. f \<in> set al \<Longrightarrow> elems f \<noteq> []"
    using fr_ne ex by (auto simp: al_def)
  have "\<exists>fr2. mapE (\<lambda>f. bindE (np_nanmin (elems f))
                      (\<lambda>mn. Inr (map_arr (\<lambda>x. if isfinite x then x else mn) f))) al = Inr fr2"
  proof (rule mapE_ok)
    fix f assume "f \<in> set al"
    then obtain m where "np_nanmin (elems f) = Inr m"
      using al_ne np_nanmin_ok by blast
    then show "\<exists>y. bindE (np_nanmin (elems f))
                      (\<lambda>mn. Inr (map_arr (\<lambda>x. if isfinite x then x else mn) f)) = Inr y"
      by simp
  qed
  then obtain fr2 where fr2: "mapE (\<lambda>f. bindE (np_nanmin (elems f))
                      (\<lambda>mn. Inr (map_arr (\<lambda>x. if isfinite x then x else mn) f))) al = Inr fr2"
    by blast
  show ?thesis
    unfolding prepare_precip_def Let_def fr_def [symmetric] al_def [symmetric] mt fr2 bindE_Inr
    by blast
qed

lemma succeeds_Inr: "succeeds r \<Longrightarrow> \<exists>x. r = Inr x"
  by (cases r) (simp_all add: succeeds_def)

lemma init_vps_unbound:
  assumes "vel_pert_method cfg = Some name" "0 < n_ens_members cfg"
  shows "init_vps C cfg velocity None vp
    = bindE (noise_get_method C name) (\<lambda>u. Inl (NameError ''randgen_motion''))"
  using assms by (simp add: init_vps_def)

lemma init_forecast_unbound:
  assumes vp: "vel_pert_method cfg = Some name"
    and nz: "noise_method cfg = None"
    and ens: "0 < n_ens_members cfg"
  shows "init_forecast C cfg precip velocity \<noteq> Inr r"
proof
  assume "init_forecast C cfg precip velocity = Inr r"
  then obtain vpp vs where "init_vps C cfg velocity None vpp = Inr vs"
    unfolding init_forecast_def
    by (auto simp: bindE_eq_Inr Let_def split_beta nz)
  then show False
    unfolding init_vps_unbound [OF vp ens] by (simp add: bindE_eq_Inr)
qed

text \<open>
  C10, as amended. The claim: every call with a velocity perturbation and no noise
  (\<^verbatim>\<open>kmperpixel\<close> and \<^verbatim>\<open>timestep\<close> given) passes the validation and then fails
  with a \<^verbatim>\<open>NameError\<close>. What holds for every such call with at least one member:
  it does not return, it raises. The validation does not read \<^verbatim>\<open>noise_method\<close>, so
  it accepts the call if it accepts it with a noise method. And when nothing raises
  before the loop of line 540, the error is the \<^verbatim>\<open>NameError\<close>:
  \<^verbatim>\<open>randgen_motion\<close> is bound under \<^verbatim>\<open>noise_method is not None\<close> only (lines
  523-525) and read by the first pass of the loop. Nothing raises before when the
  validation passes, the parameter lists printed in lines 353-358 have three entries,
  the methods of lines 368-378 are found and the filter is built, the input fields are
  prepared (lines 386-428), and the method of the velocity perturbation is found (line
  536).
\<close>

theorem C10_randgen_motion_unbound:
  assumes vp: "vel_pert_method cfg = Some name"
    and nz: "noise_method cfg = None"
    and ens: "0 < n_ens_members cfg"
  shows "(\<exists>e. forecast C cfg precip velocity ts = Inl e)
    \<and> validate (cfg\<lparr>noise_method := nm\<rparr>) precip velocity ts
        = validate cfg precip velocity ts
    \<and> (succeeds (validate cfg precip velocity ts) \<and> succeeds (vel_pert_params C cfg)
         \<and> succeeds (get_methods C cfg precip)
         \<and> succeeds (prepare_precip C cfg precip velocity)
         \<and> succeeds (noise_get_method C name)
       \<longrightarrow> forecast C cfg precip velocity ts = Inl (NameError ''randgen_motion''))"
proof -
  have "forecast C cfg precip velocity ts \<noteq> Inr r" for r
  proof
    assume "forecast C cfg precip velocity ts = Inr r"
    then obtain x where "init_forecast C cfg precip velocity = Inr x"
      by (auto simp: forecast_def bindE_eq_Inr)
    then show False
      using init_forecast_unbound [OF vp nz ens] by blast
  qed
  then have 1: "\<exists>e. forecast C cfg precip velocity ts = Inl e"
    by (cases "forecast C cfg precip velocity ts") auto
  have 2: "validate (cfg\<lparr>noise_method := nm\<rparr>) precip velocity ts
      = validate cfg precip velocity ts"
    by (simp add: validate_def check_options_def split: sum.splits)
  have 3: "forecast C cfg precip velocity ts = Inl (NameError ''randgen_motion'')"
    if v: "succeeds (validate cfg precip velocity ts)"
      and p: "succeeds (vel_pert_params C cfg)"
      and g: "succeeds (get_methods C cfg precip)"
      and pr: "succeeds (prepare_precip C cfg precip velocity)"
      and n: "succeeds (noise_get_method C name)"
  proof -
    have v': "validate cfg precip velocity ts = Inr ()"
      using succeeds_Inr [OF v] by simp
    have g': "get_methods C cfg precip = Inr ()"
      using succeeds_Inr [OF g] by simp
    have n': "noise_get_method C name = Inr ()"
      using succeeds_Inr [OF n] by simp
    from succeeds_Inr [OF p] obtain vpp where vpp: "vel_pert_params C cfg = Inr vpp"
      by blast
    from succeeds_Inr [OF pr] obtain fr dm mt where
      pr': "prepare_precip C cfg precip velocity = Inr (fr, dm, mt)"
      by (metis prod_cases3)
    have nc: "init_noise_coeffs C cfg fr = Inr None"
      using nz by (simp add: init_noise_coeffs_def)
    have "init_vps C cfg velocity None vpp = Inl (NameError ''randgen_motion'')"
      unfolding init_vps_unbound [OF vp ens] n' by simp
    then have "init_forecast C cfg precip velocity = Inl (NameError ''randgen_motion'')"
      using nz by (simp add: init_forecast_def vpp g' pr' nc Let_def split_beta)
    then show ?thesis using v' by (simp add: forecast_def)
  qed
  show ?thesis using 1 2 3 by blast
qed

theorem C10_witness:
  "vel_pert_method cfg_c10 = Some ''bps'' \<and> noise_method cfg_c10 = None
   \<and> kmperpixel cfg_c10 = Some 1 \<and> timestep cfg_c10 = Some 5
   \<and> 0 < n_ens_members cfg_c10
   \<and> validate cfg_c10 precip_3x3 velocity_3x3 (TInt 1) = Inr ()
   \<and> vel_pert_params persistence cfg_c10
       = Inr (Some ([10.88, 0.23, -7.68], [5.76, 0.31, -2.72]))
   \<and> get_methods persistence cfg_c10 precip_3x3 = Inr ()
   \<and> succeeds (prepare_precip persistence cfg_c10 precip_3x3 velocity_3x3)
   \<and> noise_get_method persistence ''bps'' = Inr ()
   \<and> forecast persistence cfg_c10 precip_3x3 velocity_3x3 (TInt 1)
       = Inl (NameError ''randgen_motion'')"
proof -
  have 1: "vel_pert_method cfg_c10 = Some ''bps''" "noise_method cfg_c10 = None"
    "0 < n_ens_members cfg_c10"
    by (simp_all add: cfg_c10_def cfg_ex_def)
  have 2: "kmperpixel cfg_c10 = Some 1" "timestep cfg_c10 = Some 5"
    by (simp_all add: cfg_c10_def cfg_ex_def)
  have 3: "validate cfg_c10 precip_3x3 velocity_3x3 (TInt 1) = Inr ()"
    by code_simp
  have 4: "vel_pert_params persistence cfg_c10
       = Inr (Some ([10.88, 0.23, -7.68], [5.76, 0.31, -2.72]))"
    by (simp add: vel_pert_params_def cfg_c10_def cfg_ex_def persistence_def)
  have 5: "get_methods persistence cfg_c10 precip_3x3 = Inr ()"
    by code_simp
  have 6: "succeeds (prepare_precip persistence cfg_c10 precip_3x3 velocity_3x3)"
    by code_simp
  have 7: "noise_get_method persistence ''bps'' = Inr ()"
    by code_simp
  have "succeeds (validate cfg_c10 precip_3x3 velocity_3x3 (TInt 1))"
    "succeeds (vel_pert_params persistence cfg_c10)"
    "succeeds (get_methods persistence cfg_c10 precip_3x3)"
    "succeeds (noise_get_method persistence ''bps'')"
    unfolding 3 4 5 7 by (simp_all add: succeeds_def)
  with C10_randgen_motion_unbound [OF 1, of persistence precip_3x3 velocity_3x3 "TInt 1"] 6
  have 8: "forecast persistence cfg_c10 precip_3x3 velocity_3x3 (TInt 1)
       = Inl (NameError ''randgen_motion'')"
    by blast
  show ?thesis
    by (intro conjI) (rule 1 2 3 4 5 6 7 8)+
qed

text \<open>
  Calls with the velocity perturbation \<^verbatim>\<open>bps\<close>, no noise, \<^verbatim>\<open>kmperpixel\<close> and
  \<^verbatim>\<open>timestep\<close> that do not end in the \<^verbatim>\<open>NameError\<close>: with a motion field that is
  not finite the validation fails; with a parameter list of two entries line 354 raises
  an \<^verbatim>\<open>IndexError\<close>; with one cascade level the Gaussian filter is refused in line
  374; and a perturbation method that is not known is refused in line 536.
\<close>

theorem C10_counterexample:
  "vel_pert_method cfg_c10 = Some ''bps'' \<and> noise_method cfg_c10 = None
   \<and> kmperpixel cfg_c10 = Some 1 \<and> timestep cfg_c10 = Some 5
   \<and> validate cfg_c10 precip_3x3 (velocity_3x3\<lparr>elems := NaN # tl (elems velocity_3x3)\<rparr>)
        (TInt 1) = Inl (ValueError ''velocity contains non-finite values'')
   \<and> validate (cfg_c10\<lparr>p_par := Some [1, 2]\<rparr>) precip_3x3 velocity_3x3 (TInt 1) = Inr ()
   \<and> forecast persistence (cfg_c10\<lparr>p_par := Some [1, 2]\<rparr>) precip_3x3 velocity_3x3 (TInt 1)
       = Inl (IndexError ''list index out of range'')
   \<and> validate (cfg_c10\<lparr>n_cascade_levels := 1\<rparr>) precip_3x3 velocity_3x3 (TInt 1) = Inr ()
   \<and> forecast persistence (cfg_c10\<lparr>n_cascade_levels := 1\<rparr>) precip_3x3 velocity_3x3 (TInt 1)
       = Inl (ValueError ''n must be greater than 2'')
   \<and> validate (cfg_c10\<lparr>vel_pert_method := Some ''foo''\<rparr>) precip_3x3 velocity_3x3 (TInt 1)
       = Inr ()
   \<and> forecast persistence (cfg_c10\<lparr>vel_pert_method := Some ''foo''\<rparr>) precip_3x3
        velocity_3x3 (TInt 1)
       = Inl (ValueError ''unknown method'')"
  by code_simp

subsection \<open>The steps of \<^verbatim>\<open>worker\<close>\<close>

lemma worker_InrD_ex:
  assumes "worker C cfg velocity E m t subs = Inr (outs, m')"
  shows "\<exists>eps rg pc f1 f2 mk m2 m3.
    gen_noise C cfg E m = Inr (eps, rg) \<and>
    mapE (ar_level C cfg E eps (precip_c m)) [0..<n_cascade_levels cfg] = Inr pc \<and>
    apply_mask cfg E m (snd (recompose C cfg (precip_d m) pc)) = Inr f1 \<and>
    prob_match C cfg E f1 = Inr f2 \<and>
    update_mask C cfg E f2 (mask_prec_j m) = Inr mk \<and>
    advect_sub C cfg velocity (assign_where (domain_mask E) NaN f2) subs
       (m\<lparr>precip_c := pc, precip_d := fst (recompose C cfg (precip_d m) pc),
          randgen_prec := rg, mask_prec_j := mk\<rparr>) = Inr (outs, m2) \<and>
    advect_full C cfg velocity t subs m2 = Inr m3 \<and>
    m' = m3\<lparr>precip_f_prev := assign_where (domain_mask E) NaN f2\<rparr>"
  using assms unfolding worker_def
  by (auto simp: bindE_eq_Inr Let_def split_beta)

lemma precip_f_ip_eq:
  assumes "0 < t_sub"
  shows "precip_f_ip t_sub prev new = advected_field t_sub prev new"
  using assms
  by (simp add: precip_f_ip_def advected_field_def linear_blend_def py_int_def Let_def
      zip_arr_def map_arr_def zip_map1 zip_map2 split_beta)

lemma perturb_InrD:
  assumes "perturb C cfg velocity vp tt = Inr r"
  shows "\<exists>v p. r = (v, p)"
  by (cases r) simp

lemma advect_sub_fields:
  assumes "advect_sub C cfg velocity new subs m = Inr (outs, m')"
  shows "list_all2 (\<lambda>t_sub out. \<exists>v dt d. out =
            hd (fst (extrapolate C (Some (advected_field t_sub (precip_f_prev m) new)) v [dt] d)))
          (filter (\<lambda>x. 0 < x) subs) outs
        \<and> precip_f_prev m' = precip_f_prev m \<and> precip_c m' = precip_c m"
  using assms
proof (induction subs arbitrary: m outs)
  case Nil
  then show ?case by simp
next
  case (Cons t_sub ts)
  show ?case
  proof (cases "0 < t_sub")
    case False
    then show ?thesis using Cons by simp
  next
    case True
    let ?ip = "precip_f_ip t_sub (precip_f_prev m) new"
    from Cons.prems True obtain vel_pert vp where
      p: "perturb C cfg velocity (vps m) (t_total m + (t_sub - t_prev m)) = Inr (vel_pert, vp)"
      by (auto simp: bindE_eq_Inr Let_def)
    obtain eps d where e: "extrapolate C (Some ?ip) vel_pert [t_sub - t_prev m] (displacement m) = (eps, d)"
      by (cases "extrapolate C (Some ?ip) vel_pert [t_sub - t_prev m] (displacement m)")
    let ?m1 = "m\<lparr>t_total := t_total m + (t_sub - t_prev m), vps := vp,
                displacement := Some d, t_prev := t_sub\<rparr>"
    from Cons.prems True p e obtain ep rest outs' where
      eps: "eps = ep # rest" and
      r: "advect_sub C cfg velocity new ts ?m1 = Inr (outs', m')" and
      o: "outs = ep # outs'"
      by (cases eps) (auto simp: bindE_eq_Inr Let_def)
    have ih: "list_all2 (\<lambda>t_sub out. \<exists>v dt d. out =
            hd (fst (extrapolate C (Some (advected_field t_sub (precip_f_prev ?m1) new)) v [dt] d)))
          (filter (\<lambda>x. 0 < x) ts) outs'
        \<and> precip_f_prev m' = precip_f_prev ?m1 \<and> precip_c m' = precip_c ?m1"
      by (rule Cons.IH [OF r])
    have "ep = hd (fst (extrapolate C (Some (advected_field t_sub (precip_f_prev m) new))
        vel_pert [t_sub - t_prev m] (displacement m)))"
      using e eps precip_f_ip_eq [OF True] by simp
    then show ?thesis using ih True o by auto
  qed
qed

lemma advect_full_frame:
  assumes "advect_full C cfg velocity t subs m = Inr m'"
  shows "precip_f_prev m' = precip_f_prev m \<and> precip_c m' = precip_c m"
  using assms by (auto simp: advect_full_def bindE_eq_Inr Let_def split_beta split: if_splits)

lemma worker_precip_c:
  assumes "worker C cfg velocity E m t subs = Inr (outs, m')"
  shows "mapE (ar_level C cfg E (fst (projr (gen_noise C cfg E m))) (precip_c m))
      [0..<n_cascade_levels cfg] = Inr (precip_c m')"
proof -
  from worker_InrD_ex [OF assms] obtain eps rg pc f2 mk m2 m3 where
    g: "gen_noise C cfg E m = Inr (eps, rg)"
    and pc: "mapE (ar_level C cfg E eps (precip_c m)) [0..<n_cascade_levels cfg] = Inr pc"
    and a: "advect_sub C cfg velocity (assign_where (domain_mask E) NaN f2) subs
       (m\<lparr>precip_c := pc, precip_d := fst (recompose C cfg (precip_d m) pc),
          randgen_prec := rg, mask_prec_j := mk\<rparr>) = Inr (outs, m2)"
    and f: "advect_full C cfg velocity t subs m2 = Inr m3"
    and m': "m' = m3\<lparr>precip_f_prev := assign_where (domain_mask E) NaN f2\<rparr>"
    by blast
  have "precip_c m' = pc"
    using advect_sub_fields [OF a] advect_full_frame [OF f] m' by simp
  then show ?thesis using g pc by simp
qed

text \<open>
  C8. For every subtimestep \<open>t_sub > 0\<close> of a step, the output of \<^verbatim>\<open>worker\<close> is
  what the extrapolator returns for \<open>advected_field t_sub prev new\<close>: the linear blend
  \<open>(1 - f) * prev + f * new\<close> of the previous forecast field of the member and the
  new one when the fractional part \<open>f\<close> of \<open>t_sub\<close> is positive, and the previous
  field, unblended, when \<open>f = 0\<close>. The new field is the one the member keeps as its
  previous field for the next step.
\<close>

theorem C8_advected_field_is_blend:
  assumes "worker C cfg velocity E m t subs = Inr (outs, m')"
  shows "list_all2 (\<lambda>t_sub out. \<exists>v dt d. out =
            hd (fst (extrapolate C
              (Some (advected_field t_sub (precip_f_prev m) (precip_f_prev m'))) v [dt] d)))
          (filter (\<lambda>x. 0 < x) subs) outs"
proof -
  from worker_InrD_ex [OF assms] obtain rg pc f2 mk m2 m3 where
    a: "advect_sub C cfg velocity (assign_where (domain_mask E) NaN f2) subs
       (m\<lparr>precip_c := pc, precip_d := fst (recompose C cfg (precip_d m) pc),
          randgen_prec := rg, mask_prec_j := mk\<rparr>) = Inr (outs, m2)"
    and m': "m' = m3\<lparr>precip_f_prev := assign_where (domain_mask E) NaN f2\<rparr>"
    by blast
  show ?thesis
    using advect_sub_fields [OF a] m' by simp
qed


theorem C8_witness:
  "worker persistence cfg_c8 velocity_ex env_ex member_ex 0 [0.5] = Inr step_c8
   \<and> advected_field 0.5 (precip_f_prev member_ex) (precip_f_prev (snd step_c8))
       = fld [Fin 2, Fin 3.5]
   \<and> list_all2 (\<lambda>t_sub out. \<exists>v dt d. out =
            hd (fst (extrapolate persistence
              (Some (advected_field t_sub (precip_f_prev member_ex)
                 (precip_f_prev (snd step_c8)))) v [dt] d)))
          (filter (\<lambda>x. 0 < x) [0.5]) (fst step_c8)"
proof -
  have 1: "worker persistence cfg_c8 velocity_ex env_ex member_ex 0 [0.5]
      = Inr (fst step_c8, snd step_c8)"
    by code_simp
  have 2: "advected_field 0.5 (precip_f_prev member_ex) (precip_f_prev (snd step_c8))
       = fld [Fin 2, Fin 3.5]"
    by code_simp
  show ?thesis
    using C8_advected_field_is_blend [OF 1] 1 2 by simp
qed

subsection \<open>The precipitation mask\<close>

lemma px_less_irrefl [simp]: "\<not> px_less a a"
  by (cases a) simp_all

lemma px_mul_zero: "px_mul z (Fin 0) = Fin 0 \<or> px_mul z (Fin 0) = NaN"
  by (cases z) simp_all

lemma px_add_zero: "px_add R (Fin 0) = R"
  by (cases R) simp_all

lemma px_add_NaN: "px_add R NaN = NaN"
  by (cases R) simp_all

lemma px_less_NaN: "\<not> px_less R NaN"
  by (cases R) simp_all

lemma weight_zero_not_above: "\<not> px_less R (px_add R (px_mul z (Fin 0)))"
  using px_mul_zero [of z] by (auto simp: px_add_zero px_add_NaN px_less_NaN)

lemma assign_where_nth:
  assumes "i < length (elems b)" "i < length (elems a)"
  shows "elems (assign_where b v a) ! i = (if elems b ! i then v else elems a ! i)"
  using assms by (simp add: assign_where_def)

lemma apply_mask_outside:
  assumes am: "apply_mask cfg E m f = Inr f'"
    and mm: "mask_method cfg = Some ''obs'' \<or> mask_method cfg = Some ''incremental''"
    and out: "outside_mask cfg E m i"
    and i: "i < length (elems f)"
  shows "Inr (elems f' ! i) = np_min (elems f) \<and> i < length (elems f')"
proof -
  from am mm obtain R where R: "np_min (elems f) = Inr R"
    by (auto simp: apply_mask_def bindE_eq_Inr)
  show ?thesis
  proof (cases "mask_method cfg = Some ''incremental''")
    case True
    with out obtain w where w: "mask_prec_j m = Some w" "i < length (elems w)" "elems w ! i = Fin 0"
      by (auto simp: outside_mask_def split: option.splits)
    define g where "g = zip_arr (\<lambda>x y. px_add R (px_mul (px_sub x R) y)) f w"
    have gi: "elems g ! i = px_add R (px_mul (px_sub (elems f ! i) R) (Fin 0))" "i < length (elems g)"
      using w i by (simp_all add: g_def zip_arr_def)
    have f': "f' = assign_where (map_arr Not (map_arr (\<lambda>x. px_less R x) g)) R g"
      using am True R w by (simp add: apply_mask_def Let_def g_def)
    have "elems f' ! i = R"
      using gi weight_zero_not_above [of R "px_sub (elems f ! i) R"]
      by (simp add: f' assign_where_def map_arr_def)
    moreover have "i < length (elems f')"
      using gi by (simp add: f' assign_where_def map_arr_def)
    ultimately show ?thesis using R by simp
  next
    case False
    with mm have obs: "mask_method cfg = Some ''obs''" by simp
    with out obtain b where b: "mask_prec E = Some b" "i < length (elems b)" "\<not> elems b ! i"
      by (auto simp: outside_mask_def split: option.splits)
    have f': "f' = assign_where (map_arr Not b) R f"
      using am obs R b by (simp add: apply_mask_def)
    show ?thesis
      using b i R by (simp add: f' assign_where_def map_arr_def)
  qed
qed


lemma prob_match_below:
  assumes pm: "prob_match C cfg E f1 = Inr f2"
    and i: "i < length (elems f1)"
    and m: "probmatching_method cfg = None
      \<or> probmatching_method cfg = Some ''mean''
        \<and> (\<exists>c. precip_thr cfg = Some c \<and> px_less (elems f1 ! i) (Fin c))"
  shows "elems f2 ! i = elems f1 ! i \<and> i < length (elems f2)"
proof (cases "probmatching_method cfg = None")
  case True
  then show ?thesis using pm i by (simp add: prob_match_def)
next
  case False
  with m obtain c where mean: "probmatching_method cfg = Some ''mean''"
    and c: "precip_thr cfg = Some c" and lt: "px_less (elems f1 ! i) (Fin c)"
    by blast
  from lt have nle: "\<not> px_le (Fin c) (elems f1 ! i)"
    by (simp add: px_le_def)
  from pm mean c obtain mu0 where
    f2: "f2 = zip_arr (\<lambda>b x. if b then px_add (px_sub x
              (np_mean (select (map_arr (\<lambda>x. px_le (Fin c) x) f1) f1))) mu0 else x)
            (map_arr (\<lambda>x. px_le (Fin c) x) f1) f1"
    by (auto simp: prob_match_def ge_thr_def Let_def split: option.splits)
  show ?thesis
    using i nle by (simp add: f2 zip_arr_def map_arr_def)
qed

text \<open>
  C3, as amended. The claim: under the methods \<^verbatim>\<open>incremental\<close> and \<^verbatim>\<open>obs\<close>
  every forecast pixel outside the mask equals the minimum of the recomposed field of
  the step. This holds for the field right after the mask is applied (line 683), for
  every member and step. The matching of the statistics and the domain mask come after
  it (lines 685-701). In the forecast field of the step the pixel keeps the minimum
  when it is not in the domain mask and the matching leaves it: there is no matching,
  or the mean is matched and the minimum is below \<^verbatim>\<open>precip_thr\<close>, so that the pixel
  is not among those that are shifted.
\<close>

theorem C3_masked_pixel_is_step_minimum:
  assumes run: "worker C cfg velocity E m t subs = Inr (outs, m')"
    and mm: "mask_method cfg = Some ''obs'' \<or> mask_method cfg = Some ''incremental''"
    and out: "outside_mask cfg E m i"
    and i: "i < length (elems (snd (recompose C cfg (precip_d m) (precip_c m'))))"
  shows "\<exists>f1. apply_mask cfg E m (snd (recompose C cfg (precip_d m) (precip_c m'))) = Inr f1
    \<and> Inr (elems f1 ! i) = np_min (elems (snd (recompose C cfg (precip_d m) (precip_c m'))))
    \<and> (i < length (elems (domain_mask E)) \<and> \<not> elems (domain_mask E) ! i
        \<and> (probmatching_method cfg = None
           \<or> probmatching_method cfg = Some ''mean''
             \<and> (\<exists>c. precip_thr cfg = Some c \<and> px_less (elems f1 ! i) (Fin c)))
        \<longrightarrow> elems (precip_f_prev m') ! i = elems f1 ! i)"
proof -
  from worker_InrD_ex [OF run] obtain eps rg pc f1 f2 mk m2 m3 where
    am: "apply_mask cfg E m (snd (recompose C cfg (precip_d m) pc)) = Inr f1"
    and pm: "prob_match C cfg E f1 = Inr f2"
    and a: "advect_sub C cfg velocity (assign_where (domain_mask E) NaN f2) subs
       (m\<lparr>precip_c := pc, precip_d := fst (recompose C cfg (precip_d m) pc),
          randgen_prec := rg, mask_prec_j := mk\<rparr>) = Inr (outs, m2)"
    and f: "advect_full C cfg velocity t subs m2 = Inr m3"
    and m': "m' = m3\<lparr>precip_f_prev := assign_where (domain_mask E) NaN f2\<rparr>"
    by blast
  have pc: "precip_c m' = pc"
    using advect_sub_fields [OF a] advect_full_frame [OF f] m' by simp
  have 1: "Inr (elems f1 ! i) = np_min (elems (snd (recompose C cfg (precip_d m) pc)))"
    and 2: "i < length (elems f1)"
    using apply_mask_outside [OF am mm out] i pc by simp_all
  have 3: "elems (precip_f_prev m') ! i = elems f1 ! i"
    if d: "i < length (elems (domain_mask E))" "\<not> elems (domain_mask E) ! i"
      and p: "probmatching_method cfg = None
        \<or> probmatching_method cfg = Some ''mean''
          \<and> (\<exists>c. precip_thr cfg = Some c \<and> px_less (elems f1 ! i) (Fin c))"
  proof -
    have "elems f2 ! i = elems f1 ! i" "i < length (elems f2)"
      using prob_match_below [OF pm 2 p] by simp_all
    then show ?thesis using m' d by (simp add: assign_where_nth)
  qed
  show ?thesis using am 1 3 pc by auto
qed

theorem C3_witness:
  "worker (with_noise noise_c3) cfg_c3 velocity_ex (fst init_c3) (snd init_c3 ! 0) 0 [0]
     = Inr step_c3
   \<and> mask_method cfg_c3 = Some ''incremental'' \<and> probmatching_method cfg_c3 = None
   \<and> outside_mask cfg_c3 (fst init_c3) (snd init_c3 ! 0) 0
   \<and> domain_mask (fst init_c3) = \<lparr>shape = [1, 2], elems = [False, False]\<rparr>
   \<and> snd (recompose (with_noise noise_c3) cfg_c3 (precip_d (snd init_c3 ! 0))
        (precip_c (snd step_c3))) = fld [Fin 9, Fin 7]
   \<and> apply_mask cfg_c3 (fst init_c3) (snd init_c3 ! 0) (fld [Fin 9, Fin 7])
       = Inr (fld [Fin 7, Fin 7])
   \<and> elems (precip_f_prev (snd step_c3)) ! 0 = Fin 7"
proof -
  let ?C = "with_noise noise_c3"
  have 1: "worker ?C cfg_c3 velocity_ex (fst init_c3) (snd init_c3 ! 0) 0 [0]
      = Inr (fst step_c3, snd step_c3)"
    by code_simp
  have 2: "mask_method cfg_c3 = Some ''obs'' \<or> mask_method cfg_c3 = Some ''incremental''"
    by code_simp
  have 3: "outside_mask cfg_c3 (fst init_c3) (snd init_c3 ! 0) 0"
    by code_simp
  have 4: "snd (recompose ?C cfg_c3 (precip_d (snd init_c3 ! 0)) (precip_c (snd step_c3)))
      = fld [Fin 9, Fin 7]"
    by code_simp
  have 5: "apply_mask cfg_c3 (fst init_c3) (snd init_c3 ! 0) (fld [Fin 9, Fin 7])
      = Inr (fld [Fin 7, Fin 7])"
    by code_simp
  have 6: "domain_mask (fst init_c3) = \<lparr>shape = [1, 2], elems = [False, False]\<rparr>"
    by code_simp
  have 7: "mask_method cfg_c3 = Some ''incremental''" "probmatching_method cfg_c3 = None"
    by code_simp+
  have "0 < length (elems (snd (recompose ?C cfg_c3 (precip_d (snd init_c3 ! 0))
      (precip_c (snd step_c3)))))"
    unfolding 4 by (simp add: fld_def)
  from C3_masked_pixel_is_step_minimum [OF 1 2 3 this]
  have "elems (precip_f_prev (snd step_c3)) ! 0 = elems (fld [Fin 7, Fin 7]) ! 0"
    unfolding 4 5 6 using 7(2) by simp
  then have 8: "elems (precip_f_prev (snd step_c3)) ! 0 = Fin 7"
    by (simp add: fld_def)
  show ?thesis
    using 1 3 4 5 6 7 8 by simp
qed

text \<open>
  In the three examples pixel 0 is outside the incremental mask, and the recomposed
  field of the first step is \<open>[9, 7]\<close>, with the minimum 7. When the pixel was missing in
  an input field, it is missing in the forecast field of the step; when the mean is
  matched, the minimum is not below the threshold 5 and the pixel is shifted with the
  others, to 6; when the distribution is matched by rank, the pixel gets the smallest
  observed value, 3. The nowcasts return these fields for the time 1.
\<close>

theorem C3_counterexample:
  "(case init_forecast (with_noise noise_c3) cfg_c3 precip_c3_nan velocity_ex of
      Inr (E, ms) \<Rightarrow>
        (case worker (with_noise noise_c3) cfg_c3 velocity_ex E (ms ! 0) 0 [0] of
           Inr (outs, m') \<Rightarrow>
             mask_method cfg_c3 = Some ''incremental'' \<and> outside_mask cfg_c3 E (ms ! 0) 0
             \<and> np_min (elems (snd (recompose (with_noise noise_c3) cfg_c3
                  (precip_d (ms ! 0)) (precip_c m')))) = Inr (Fin 7)
             \<and> elems (precip_f_prev m') ! 0 = NaN
         | Inl e \<Rightarrow> False)
    | Inl e \<Rightarrow> False)
   \<and> forecast (with_noise noise_c3) cfg_c3 precip_c3_nan velocity_ex (TInt 1)
     = Inr (Some \<lparr>shape = [2, 1, 1, 2], elems = [NaN, Fin 7, NaN, Fin 7]\<rparr>,
            [\<lparr>shape = [2, 2], elems = [NaN, Fin 7, NaN, Fin 7]\<rparr>])
   \<and> (case init_forecast (with_noise noise_c3) cfg_c3_mean precip_c3 velocity_ex of
      Inr (E, ms) \<Rightarrow>
        (case worker (with_noise noise_c3) cfg_c3_mean velocity_ex E (ms ! 0) 0 [0] of
           Inr (outs, m') \<Rightarrow>
             mask_method cfg_c3_mean = Some ''incremental''
             \<and> outside_mask cfg_c3_mean E (ms ! 0) 0
             \<and> np_min (elems (snd (recompose (with_noise noise_c3) cfg_c3_mean
                  (precip_d (ms ! 0)) (precip_c m')))) = Inr (Fin 7)
             \<and> elems (precip_f_prev m') ! 0 = Fin 6
         | Inl e \<Rightarrow> False)
    | Inl e \<Rightarrow> False)
   \<and> forecast (with_noise noise_c3) cfg_c3_mean precip_c3 velocity_ex (TInt 1)
     = Inr (Some \<lparr>shape = [2, 1, 1, 2], elems = [Fin 6, Fin 6, Fin 6, Fin 6]\<rparr>,
            [\<lparr>shape = [2, 2], elems = [Fin 6, Fin 6, Fin 6, Fin 6]\<rparr>])
   \<and> (case init_forecast ranked cfg_c3_cdf precip_c3 velocity_ex of
      Inr (E, ms) \<Rightarrow>
        (case worker ranked cfg_c3_cdf velocity_ex E (ms ! 0) 0 [0] of
           Inr (outs, m') \<Rightarrow>
             mask_method cfg_c3_cdf = Some ''incremental''
             \<and> outside_mask cfg_c3_cdf E (ms ! 0) 0
             \<and> np_min (elems (snd (recompose ranked cfg_c3_cdf
                  (precip_d (ms ! 0)) (precip_c m')))) = Inr (Fin 7)
             \<and> elems (precip_f_prev m') ! 0 = Fin 3
         | Inl e \<Rightarrow> False)
    | Inl e \<Rightarrow> False)
   \<and> forecast ranked cfg_c3_cdf precip_c3 velocity_ex (TInt 1)
     = Inr (Some \<lparr>shape = [2, 1, 1, 2], elems = [Fin 3, Fin 6, Fin 3, Fin 6]\<rparr>,
            [\<lparr>shape = [2, 2], elems = [Fin 3, Fin 6, Fin 3, Fin 6]\<rparr>])"
  by code_simp

subsection \<open>The domain mask\<close>

lemma foldl_zip_or:
  assumes "\<forall>x\<in>set ms. length (elems x) = length (elems m)" "i < length (elems m)"
  shows "length (elems (foldl (zip_arr (\<or>)) m ms)) = length (elems m)
    \<and> (elems (foldl (zip_arr (\<or>)) m ms) ! i \<longleftrightarrow> elems m ! i \<or> (\<exists>x\<in>set ms. elems x ! i))"
  using assms
proof (induction ms arbitrary: m)
  case Nil
  then show ?case by simp
next
  case (Cons a ms)
  let ?m' = "zip_arr (\<or>) m a"
  have len: "length (elems ?m') = length (elems m)"
    using Cons.prems by (simp add: zip_arr_def)
  have nth: "elems ?m' ! i \<longleftrightarrow> elems m ! i \<or> elems a ! i"
    using Cons.prems by (simp add: zip_arr_def)
  have "length (elems (foldl (zip_arr (\<or>)) ?m' ms)) = length (elems ?m')
    \<and> (elems (foldl (zip_arr (\<or>)) ?m' ms) ! i \<longleftrightarrow> elems ?m' ! i \<or> (\<exists>x\<in>set ms. elems x ! i))"
    using Cons.prems len by (intro Cons.IH) simp_all
  then show ?case using len nth by auto
qed

lemma logical_or_reduce_nth:
  assumes "\<forall>x\<in>set ms. length (elems x) = k" "i < k" "b \<in> set ms" "elems b ! i"
  shows "i < length (elems (logical_reduce (\<or>) False ms)) \<and> elems (logical_reduce (\<or>) False ms) ! i"
proof (cases ms)
  case Nil
  then show ?thesis using assms by simp
next
  case (Cons m ms')
  have 1: "\<forall>x\<in>set ms'. length (elems x) = length (elems m)" and 2: "i < length (elems m)"
    using assms Cons by simp_all
  from foldl_zip_or [OF 1 2] assms(3,4) Cons 2 show ?thesis
    by (auto simp: logical_reduce_def)
qed

lemma frame_length:
  assumes "length xs = n * k" "i < n"
  shows "length (take k (drop (i * k) xs)) = k"
proof -
  have "Suc i \<le> n" using assms(2) by simp
  then have "Suc i * k \<le> n * k" by (rule mult_le_mono1)
  then show ?thesis using assms by simp
qed

lemma frames_length_elems:
  assumes "wf_array a" "ndim a = 3" "f \<in> set (frames a)"
  shows "length (elems f) = shape a ! 1 * shape a ! 2"
proof -
  obtain n M N where shp: "shape a = [n, M, N]"
    using length3 [of "shape a"] assms(2) by (auto simp: ndim_def)
  have len: "length (elems a) = n * (M * N)"
    using assms(1) shp by (simp add: wf_array_def)
  from assms(3) obtain i where i: "i < n"
    and f: "f = \<lparr>shape = [M, N], elems = take (M * N) (drop (i * (M * N)) (elems a))\<rparr>"
    using shp by (auto simp: frames_def Let_def)
  show ?thesis using frame_length [OF len i] f shp by simp
qed

lemma init_mask_domain_mask:
  assumes "init_mask C cfg pc pd shp E = Inr (E', mk)"
  shows "domain_mask E' = domain_mask E"
  using assms
  by (auto simp: init_mask_def bindE_eq_Inr Let_def split: if_splits option.splits)

lemma prepare_precip_domain_mask:
  assumes "prepare_precip C cfg precip velocity = Inr (fr, dm, mt)"
  shows "dm = logical_reduce (\<or>) False
    (map (map_arr (\<lambda>x. \<not> isfinite x)) (py_lastn (ar_order cfg + 1) (frames precip)))"
  using assms by (auto simp: prepare_precip_def Let_def bindE_eq_Inr)

lemma init_forecast_domain_mask:
  assumes "init_forecast C cfg precip velocity = Inr (E, ms)"
  shows "domain_mask E = logical_reduce (\<or>) False
    (map (map_arr (\<lambda>x. \<not> isfinite x)) (py_lastn (ar_order cfg + 1) (frames precip)))"
  using assms unfolding init_forecast_def
  by (auto simp: bindE_eq_Inr Let_def split_beta split: if_splits
      dest!: init_mask_domain_mask prepare_precip_domain_mask)

text \<open>
  C4, as amended. The claim: a pixel that is not finite in one of the
  \<^verbatim>\<open>ar_order + 1\<close> input fields is missing in every returned forecast field. Line
  701 sets these pixels to \<open>NaN\<close> in the forecast field of each member at each step,
  before the field is advected: that is what holds. The fields that \<^verbatim>\<open>forecast\<close>
  returns are what the extrapolator makes of these fields (C8), and an extrapolator
  moves the missing pixels with the motion.
\<close>

theorem C4_domain_mask_pixels_missing:
  assumes init: "init_forecast C cfg precip velocity = Inr (E0, ms0)"
    and wf: "wf_array precip" and nd: "ndim precip = 3"
    and f: "f \<in> set (py_lastn (ar_order cfg + 1) (frames precip))"
    and i: "i < length (elems f)" and nonfin: "\<not> isfinite (elems f ! i)"
    and E: "domain_mask E = domain_mask E0"
    and run: "worker C cfg velocity E m t subs = Inr (outs, m')"
    and len: "i < length (elems (precip_f_prev m'))"
  shows "elems (precip_f_prev m') ! i = NaN"
proof -
  let ?fr = "py_lastn (ar_order cfg + 1) (frames precip)"
  let ?ms = "map (map_arr (\<lambda>x. \<not> isfinite x)) ?fr"
  have all: "\<forall>x\<in>set ?ms. length (elems x) = shape precip ! 1 * shape precip ! 2"
    using frames_length_elems [OF wf nd] set_py_lastn [of "ar_order cfg + 1" "frames precip"]
    by (auto simp: map_arr_def)
  have ik: "i < shape precip ! 1 * shape precip ! 2"
    using frames_length_elems [OF wf nd, of f] f i set_py_lastn [of "ar_order cfg + 1" "frames precip"]
    by auto
  have b: "map_arr (\<lambda>x. \<not> isfinite x) f \<in> set ?ms" using f by simp
  have bi: "elems (map_arr (\<lambda>x. \<not> isfinite x) f) ! i"
    using i nonfin by (simp add: map_arr_def)
  have dm: "i < length (elems (domain_mask E)) \<and> elems (domain_mask E) ! i"
    using logical_or_reduce_nth [OF all ik b bi] init_forecast_domain_mask [OF init] E by simp
  from worker_InrD_ex [OF run] obtain f2 m3 where
    m': "m' = m3\<lparr>precip_f_prev := assign_where (domain_mask E) NaN f2\<rparr>"
    by blast
  have "i < length (elems f2)"
    using len m' by (simp add: assign_where_def)
  then show ?thesis
    using dm m' by (simp add: assign_where_nth)
qed

theorem C4_witness:
  "init_forecast persistence cfg_ex precip_ex velocity_ex = Inr init_c4
   \<and> wf_array precip_ex \<and> ndim precip_ex = 3
   \<and> \<lparr>shape = [1, 2], elems = [Fin 3, NaN]\<rparr>
       \<in> set (py_lastn (ar_order cfg_ex + 1) (frames precip_ex))
   \<and> worker persistence cfg_ex velocity_ex (fst init_c4) (snd init_c4 ! 0) 0 [0] = Inr step_c4
   \<and> elems (precip_f_prev (snd step_c4)) ! 1 = NaN"
proof -
  have 1: "init_forecast persistence cfg_ex precip_ex velocity_ex = Inr (fst init_c4, snd init_c4)"
    by code_simp
  have 2: "wf_array precip_ex" "ndim precip_ex = 3"
    by (simp_all add: wf_array_def ndim_def precip_ex_def)
  have 3: "\<lparr>shape = [1, 2], elems = [Fin 3, NaN]\<rparr>
       \<in> set (py_lastn (ar_order cfg_ex + 1) (frames precip_ex))"
    by code_simp
  have 4: "1 < length (elems \<lparr>shape = [1, 2], elems = [Fin 3, NaN]\<rparr>)"
    "\<not> isfinite (elems \<lparr>shape = [1, 2], elems = [Fin 3, NaN]\<rparr> ! 1)"
    by simp_all
  have 5: "worker persistence cfg_ex velocity_ex (fst init_c4) (snd init_c4 ! 0) 0 [0]
      = Inr (fst step_c4, snd step_c4)"
    by code_simp
  have 6: "1 < length (elems (precip_f_prev (snd step_c4)))"
    by code_simp
  show ?thesis
    using C4_domain_mask_pixels_missing [OF 1 2 3 4 refl 5 6] 1 2 3 5 by simp
qed

text \<open>
  Pixel 1 of the newest input field is missing. Under a motion of one pixel to the
  right the returned fields have the value 3 there: the missing pixel has moved out.
\<close>

theorem C4_counterexample:
  "\<not> isfinite (elems precip_ex ! 3)
   \<and> forecast advection_right cfg_ex precip_ex velocity_right (TInt 1)
     = Inr (Some \<lparr>shape = [2, 1, 1, 2], elems = [NaN, Fin 3, NaN, Fin 3]\<rparr>,
            [\<lparr>shape = [2, 2], elems = [NaN, Fin 3, NaN, Fin 3]\<rparr>])"
  by code_simp

subsection \<open>The main loop and the shape of the output\<close>

lemma mapE_Inr_set:
  "mapE f xs = Inr ys \<Longrightarrow> length ys = length xs \<and> (\<forall>y\<in>set ys. \<exists>x\<in>set xs. f x = Inr y)"
proof (induction xs arbitrary: ys)
  case Nil
  then show ?case by simp
next
  case (Cons x xs)
  from Cons.prems obtain y ys' where y: "f x = Inr y" and ys': "mapE f xs = Inr ys'"
    and ys: "ys = y # ys'"
    by (auto simp: bindE_eq_Inr)
  show ?case using Cons.IH [OF ys'] y ys by auto
qed

lemma perturb_shape:
  assumes "perturb C cfg velocity vp tt = Inr (v, p)"
  shows "shape v = shape velocity"
  using assms
  by (auto simp: perturb_def zip_arr_def split_beta split: if_splits option.splits)

lemma advect_sub_outs:
  assumes "advect_sub C cfg velocity new subs m = Inr (outs, m')"
  shows "length outs = length (filter (\<lambda>x. 0 < x) subs)
    \<and> (\<forall>x\<in>set outs. \<exists>f v tms d. shape v = shape velocity
          \<and> x \<in> set (fst (extrapolate C f v tms d)))
    \<and> precip_f m' = precip_f m"
  using assms
proof (induction subs arbitrary: m outs)
  case Nil
  then show ?case by simp
next
  case (Cons t_sub ts)
  show ?case
  proof (cases "0 < t_sub")
    case False
    then show ?thesis using Cons by simp
  next
    case True
    let ?ip = "precip_f_ip t_sub (precip_f_prev m) new"
    from Cons.prems True obtain vel_pert vp where
      p: "perturb C cfg velocity (vps m) (t_total m + (t_sub - t_prev m)) = Inr (vel_pert, vp)"
      by (auto simp: bindE_eq_Inr Let_def)
    obtain eps d where e: "extrapolate C (Some ?ip) vel_pert [t_sub - t_prev m] (displacement m) = (eps, d)"
      by (cases "extrapolate C (Some ?ip) vel_pert [t_sub - t_prev m] (displacement m)")
    let ?m1 = "m\<lparr>t_total := t_total m + (t_sub - t_prev m), vps := vp,
                displacement := Some d, t_prev := t_sub\<rparr>"
    from Cons.prems True p e obtain ep rest outs' where
      eps: "eps = ep # rest" and
      r: "advect_sub C cfg velocity new ts ?m1 = Inr (outs', m')" and
      o: "outs = ep # outs'"
      by (cases eps) (auto simp: bindE_eq_Inr Let_def)
    have ih: "length outs' = length (filter (\<lambda>x. 0 < x) ts)
      \<and> (\<forall>x\<in>set outs'. \<exists>f v tms d. shape v = shape velocity
            \<and> x \<in> set (fst (extrapolate C f v tms d)))
      \<and> precip_f m' = precip_f ?m1"
      by (rule Cons.IH [OF r])
    have "ep \<in> set (fst (extrapolate C (Some ?ip) vel_pert [t_sub - t_prev m] (displacement m)))"
      using e eps by simp
    moreover have "shape vel_pert = shape velocity"
      using perturb_shape [OF p] .
    ultimately have "\<exists>f v tms d. shape v = shape velocity
        \<and> ep \<in> set (fst (extrapolate C f v tms d))" by blast
    then show ?thesis using ih True o by auto
  qed
qed

lemma advect_full_precip_f:
  assumes "advect_full C cfg velocity t subs m = Inr m'"
  shows "precip_f m' = precip_f m"
  using assms by (auto simp: advect_full_def bindE_eq_Inr Let_def split_beta split: if_splits)

lemma worker_outs:
  assumes "worker C cfg velocity E m t subs = Inr (outs, m')"
  shows "length outs = length (filter (\<lambda>x. 0 < x) subs)
    \<and> (\<forall>x\<in>set outs. \<exists>f v tms d. shape v = shape velocity
          \<and> x \<in> set (fst (extrapolate C f v tms d)))
    \<and> precip_f m' = precip_f m"
proof -
  from worker_InrD_ex [OF assms] obtain rg pc f2 mk m2 m3 where
    a: "advect_sub C cfg velocity (assign_where (domain_mask E) NaN f2) subs
       (m\<lparr>precip_c := pc, precip_d := fst (recompose C cfg (precip_d m) pc),
          randgen_prec := rg, mask_prec_j := mk\<rparr>) = Inr (outs, m2)"
    and f: "advect_full C cfg velocity t subs m2 = Inr m3"
    and m': "m' = m3\<lparr>precip_f_prev := assign_where (domain_mask E) NaN f2\<rparr>"
    by blast
  show ?thesis
    using advect_sub_outs [OF a] advect_full_precip_f [OF f] m' by simp
qed

lemma step_outputs:
  assumes st: "step C cfg velocity (E, ms, calls) (t, subs) = Inr (E', ms', calls')"
    and ro: "return_output cfg"
    and es: "extrapolate_shape C"
    and s: "s = tl (shape velocity)"
    and inv: "outputs_inv K s ms"
  shows "outputs_inv (K + length (filter (\<lambda>x. 0 < x) subs)) s ms' \<and> length ms' = length ms"
proof -
  from st obtain E1 res where
    res: "mapE (\<lambda>m. worker C cfg velocity E1 m t subs) ms = Inr res"
    and ms': "ms' = map (\<lambda>(outs, m). if return_output cfg then m\<lparr>precip_f := precip_f m @ outs\<rparr>
                   else m) res"
    by (auto simp: step_def bindE_eq_Inr)
  have len: "length res = length ms"
    and all: "\<forall>r\<in>set res. \<exists>m\<in>set ms. worker C cfg velocity E1 m t subs = Inr r"
    using mapE_Inr_set [OF res] by simp_all
  have "length (precip_f m' @ outs) = K + length (filter (\<lambda>x. 0 < x) subs)
      \<and> list_all (\<lambda>x. shape x = s) (precip_f m' @ outs)"
    if "(outs, m') \<in> set res" for outs m'
  proof -
    from all that obtain m where m: "m \<in> set ms"
      and w: "worker C cfg velocity E1 m t subs = Inr (outs, m')" by blast
    have "length (precip_f m) = K" "list_all (\<lambda>x. shape x = s) (precip_f m)"
      using inv m by (simp_all add: outputs_inv_def list_all_iff)
    moreover have "list_all (\<lambda>x. shape x = s) outs"
      using worker_outs [OF w] es s by (fastforce simp: extrapolate_shape_def list_all_iff)
    ultimately show ?thesis using worker_outs [OF w] by simp
  qed
  then have "outputs_inv (K + length (filter (\<lambda>x. 0 < x) subs)) s ms'"
    using ro by (auto simp: outputs_inv_def ms' list_all_iff)
  then show ?thesis using len ms' by simp
qed

lemma main_loop_outputs:
  assumes "main_loop C cfg velocity sched (E, ms, calls) = Inr (E', ms', calls')"
    and ro: "return_output cfg"
    and es: "extrapolate_shape C"
    and s: "s = tl (shape velocity)"
    and inv: "outputs_inv K s ms"
  shows "outputs_inv (K + total_outputs sched) s ms' \<and> length ms' = length ms"
  using assms(1) inv
proof (induction sched arbitrary: E ms calls K)
  case Nil
  then show ?case by (simp add: total_outputs_def)
next
  case (Cons ts rest)
  obtain t subs where ts: "ts = (t, subs)" by (cases ts)
  from Cons.prems(1) obtain E1 ms1 calls1 where
    s1: "step C cfg velocity (E, ms, calls) (t, subs) = Inr (E1, ms1, calls1)"
    and r: "main_loop C cfg velocity rest (E1, ms1, calls1) = Inr (E', ms', calls')"
    using ts by (auto simp: bindE_eq_Inr)
  have 1: "outputs_inv (K + length (filter (\<lambda>x. 0 < x) subs)) s ms1" "length ms1 = length ms"
    using step_outputs [OF s1 ro es s Cons.prems(2)] by simp_all
  show ?case
    using Cons.IH [OF r 1(1)] 1(2) ts by (simp add: total_outputs_def add.assoc)
qed


lemma init_members:
  assumes "init_forecast C cfg precip velocity = Inr (E, ms)"
  shows "length ms = n_ens_members cfg \<and> outputs_inv 0 s ms"
  using assms unfolding init_forecast_def
  by (auto simp: bindE_eq_Inr Let_def split_beta outputs_inv_def list_all_iff split: if_splits)

lemma np_stack_Inr:
  assumes "np_stack as = Inr a"
  shows "as \<noteq> [] \<and> shape a = length as # shape (hd as)"
  using assms by (auto simp: np_stack_def split: list.splits if_splits)

lemma assemble_shape:
  assumes a: "assemble cfg ms = Inr (Some out)" and inv: "outputs_inv K s ms"
  shows "shape out = length ms # K # s \<and> 0 < K"
proof -
  from a obtain rows where
    rows: "mapE (\<lambda>m. np_stack (precip_f m)) ms = Inr rows" and out: "np_stack rows = Inr out"
    by (auto simp: assemble_def bindE_eq_Inr split: if_splits)
  have ne: "rows \<noteq> []" and so: "shape out = length rows # shape (hd rows)"
    using np_stack_Inr [OF out] by simp_all
  have len: "length rows = length ms"
    using mapE_Inr_set [OF rows] by simp
  from ne have "hd rows \<in> set rows" by simp
  then obtain m where m: "m \<in> set ms" and r: "np_stack (precip_f m) = Inr (hd rows)"
    using mapE_Inr_set [OF rows] by blast
  have pf: "precip_f m \<noteq> []" and sr: "shape (hd rows) = length (precip_f m) # shape (hd (precip_f m))"
    using np_stack_Inr [OF r] by simp_all
  have K: "length (precip_f m) = K" and all: "list_all (\<lambda>x. shape x = s) (precip_f m)"
    using inv m by (simp_all add: outputs_inv_def list_all_iff)
  moreover from pf have "hd (precip_f m) \<in> set (precip_f m)" by simp
  ultimately have "shape (hd rows) = K # s"
    using sr by (simp add: list_all_iff)
  moreover have "0 < K" using K pf by auto
  ultimately show ?thesis using so len by simp
qed

lemma total_outputs_int: "total_outputs (map (\<lambda>t. (t, [real t])) [0..<k]) = k - 1"
proof (induction k)
  case 0
  then show ?case by (simp add: total_outputs_def)
next
  case (Suc k)
  then show ?case by (cases k) (simp_all add: total_outputs_def)
qed

lemma sum_filter_concat:
  "sum_list (map (\<lambda>xs. length (filter P xs)) xss) = length (filter P (concat xss))"
  by (induction xss) simp_all

lemma map_snd_enum: "map (\<lambda>x. g (snd x)) (enumerate n xs) = map g xs"
  by (induction xs arbitrary: n) simp_all

lemma length_filter_mset:
  assumes "mset xs = mset ys"
  shows "length (filter P xs) = length (filter P ys)"
proof -
  have "size (filter_mset P (mset xs)) = size (filter_mset P (mset ys))"
    using assms by simp
  then show ?thesis by (simp only: mset_filter [symmetric] size_mset)
qed

lemma total_outputs_list:
  assumes c: "binning_contract C l" and s: "list_schedule C l = Inr sched"
  shows "total_outputs sched = length (filter (\<lambda>x. 0 < x) l)"
proof -
  let ?ots = "0 # l"
  let ?P = "\<lambda>i. 0 < ?ots ! i"
  from s obtain bins where bins: "binned_timesteps C ?ots = Inr bins"
    and sched: "sched = map (\<lambda>(t, idx). (t, map (\<lambda>i. ?ots ! i) idx)) (enumerate 0 bins)"
    by (auto simp: list_schedule_def Let_def bindE_eq_Inr)
  have ms: "mset (concat bins) = mset [0..<Suc (length l)]"
    using c bins by (simp add: binning_contract_def)
  have "total_outputs sched = sum_list (map (\<lambda>idx. length (filter ?P idx)) bins)"
    unfolding sched
    by (simp add: total_outputs_def comp_def split_beta filter_map
        map_snd_enum [where g = "\<lambda>idx. length (filter ?P idx)"])
  also have "\<dots> = length (filter ?P (concat bins))"
    by (rule sum_filter_concat)
  also have "\<dots> = length (filter ?P [0..<Suc (length l)])"
    by (rule length_filter_mset [OF ms])
  also have "\<dots> = length (filter (\<lambda>x. 0 < x) (map (\<lambda>i. ?ots ! i) [0..<length ?ots]))"
    by (simp add: filter_map comp_def)
  also have "\<dots> = length (filter (\<lambda>x. 0 < x) ?ots)"
    by (simp only: map_nth)
  also have "\<dots> = length (filter (\<lambda>x. 0 < x) l)"
    by simp
  finally show ?thesis .
qed

lemma total_outputs_schedule:
  assumes "times_contract C ts" "schedule C ts = Inr sched"
  shows "total_outputs sched = n_positive ts"
proof (cases ts)
  case (TInt n)
  then have "sched = map (\<lambda>t. (t, [real t])) [0..<nat (n + 1)]"
    using assms(2) by (simp add: schedule_def)
  then show ?thesis
    using TInt by (simp add: total_outputs_int n_positive_def nat_add_distrib)
next
  case (TList l)
  then show ?thesis
    using assms total_outputs_list [of C l sched]
    by (simp add: schedule_def times_contract_def n_positive_def)
next
  case (TSeq l)
  then show ?thesis
    using assms total_outputs_list [of C l sched]
    by (simp add: schedule_def times_contract_def n_positive_def)
qed

lemma validated_shape:
  assumes "validate cfg precip velocity ts = Inr ()"
  shows "tl (shape velocity) = [shape precip ! 1, shape precip ! 2]"
proof -
  have ci: "check_inputs precip velocity ts (ar_order cfg) = Inr ()"
    using assms by (auto simp: validate_def split: sum.splits)
  have "ndim precip = 3" "ndim velocity = 3"
    "take 2 (drop 1 (shape precip)) = take 2 (drop 1 (shape velocity))"
    using ci by (simp_all add: check_inputs_def split: if_splits)
  moreover obtain a b c where "shape precip = [a, b, c]"
    using length3 [of "shape precip"] calculation(1) by (auto simp: ndim_def)
  moreover obtain a' b' c' where "shape velocity = [a', b', c']"
    using length3 [of "shape velocity"] calculation(2) by (auto simp: ndim_def)
  ultimately show ?thesis by simp
qed

text \<open>
  The collaborators of the examples meet what is assumed: the binning by the integer
  part, when it accepts the times, puts every index in the bin of its time.
\<close>

lemma concat_bins_mset:
  fixes f :: "nat \<Rightarrow> nat"
  shows "mset (concat (map (\<lambda>t. filter (\<lambda>i. f i = t) xs) [0..<K]))
    = mset (filter (\<lambda>i. f i < K) xs)"
proof (induction K)
  case 0
  then show ?case by simp
next
  case (Suc K)
  have "mset (filter (\<lambda>i. f i < K) xs) + mset (filter (\<lambda>i. f i = K) xs)
      = mset (filter (\<lambda>i. f i < Suc K) xs)"
    by (rule multiset_eqI) (auto simp: less_Suc_eq)
  then show ?case using Suc by simp
qed

lemma binned_timesteps_spec_partition:
  assumes "binned_timesteps_spec ts = Inr bins"
  shows "mset (concat bins) = mset [0..<length ts]"
proof -
  let ?K = "nat \<lceil>last ts\<rceil> + 1"
  let ?f = "\<lambda>i. nat \<lfloor>ts ! i\<rfloor>"
  from assms have srt: "sorted ts" and nn: "\<forall>x\<in>set ts. 0 \<le> x"
    and bins: "bins = map (\<lambda>t. filter (\<lambda>i. \<lfloor>ts ! i\<rfloor> = int t) [0..<length ts]) [0..<?K]"
    by (auto simp: binned_timesteps_spec_def sort_neq_iff list_ex_iff not_less
        split: if_splits)
  have eq: "filter (\<lambda>i. \<lfloor>ts ! i\<rfloor> = int t) [0..<length ts]
      = filter (\<lambda>i. ?f i = t) [0..<length ts]" for t
  proof (rule filter_cong [OF refl])
    fix i assume "i \<in> set [0..<length ts]"
    then have "0 \<le> ts ! i" using nn by simp
    then have "0 \<le> \<lfloor>ts ! i\<rfloor>" by simp
    then show "(\<lfloor>ts ! i\<rfloor> = int t) = (?f i = t)" by auto
  qed
  have all: "?f i < ?K" if "i < length ts" for i
  proof -
    from that have "ts \<noteq> []" by auto
    then have "last ts = ts ! (length ts - 1)" by (rule last_conv_nth)
    moreover have "ts ! i \<le> ts ! (length ts - 1)"
      using srt that by (intro sorted_nth_mono) auto
    ultimately have "ts ! i \<le> last ts" by simp
    then have "\<lfloor>ts ! i\<rfloor> \<le> \<lceil>last ts\<rceil>"
      by (meson ceiling_mono floor_le_ceiling order_trans)
    then show ?thesis by simp
  qed
  have "mset (concat bins) = mset (filter (\<lambda>i. ?f i < ?K) [0..<length ts])"
    unfolding bins eq by (rule concat_bins_mset)
  also have "filter (\<lambda>i. ?f i < ?K) [0..<length ts] = [0..<length ts]"
    using all by (simp add: filter_id_conv)
  finally show ?thesis .
qed

lemma persistence_contracts:
  "extrapolate_shape persistence" "times_contract persistence ts"
proof -
  show "extrapolate_shape persistence"
    by (auto simp: extrapolate_shape_def persistence_def list_all_iff split: option.splits)
  have "binning_contract persistence l" for l
    using binned_timesteps_spec_partition [of "0 # l"]
    by (simp add: binning_contract_def persistence_def split: sum.splits)
  then show "times_contract persistence ts"
    by (cases ts) (simp_all add: times_contract_def)
qed

text \<open>
  C5, as amended. The claim: for every valid input the output has the shape
  \<^verbatim>\<open>(n_ens_members, number of requested output times, m, n)\<close>, and step 0 never
  contributes an output field. What holds: whenever \<^verbatim>\<open>forecast\<close> returns an array,
  its shape is \<^verbatim>\<open>(n_ens_members, k, m, n)\<close> with \<open>k\<close> the number of the requested times
  that are positive, at least one, and \<open>(m, n)\<close> the spatial shape of the input fields;
  and in every step \<^verbatim>\<open>worker\<close> returns one field for each positive subtimestep of
  the step and none for the others (line 712). The time 0 that leads the schedule is
  in step 0; with an integer number of time steps it is all of step 0. The binning is
  assumed to put every index in exactly one bin, and the extrapolator to return fields
  on the grid of the motion field.
\<close>

theorem C5_output_shape:
  assumes run: "forecast C cfg precip velocity ts = Inr (Some out, calls)"
    and es: "extrapolate_shape C"
    and tc: "times_contract C ts"
  shows "shape out = [n_ens_members cfg, n_positive ts, shape precip ! 1, shape precip ! 2]
    \<and> 0 < n_positive ts
    \<and> (\<forall>E m t subs outs m'.
          worker C cfg velocity E m t subs = Inr (outs, m') \<longrightarrow>
          length outs = n_outputs (t, subs))"
proof -
  from run obtain E ms sched E' ms' where
    v: "validate cfg precip velocity ts = Inr ()"
    and i: "init_forecast C cfg precip velocity = Inr (E, ms)"
    and sc: "schedule C ts = Inr sched"
    and l: "main_loop C cfg velocity sched (E, ms, []) = Inr (E', ms', calls)"
    and a: "assemble cfg ms' = Inr (Some out)"
    by (auto simp: forecast_def bindE_eq_Inr)
  have ro: "return_output cfg"
    using a by (auto simp: assemble_def split: if_splits)
  let ?s = "tl (shape velocity)"
  have 0: "length ms = n_ens_members cfg" "outputs_inv 0 ?s ms"
    using init_members [OF i] by simp_all
  have 1: "outputs_inv (total_outputs sched) ?s ms'" "length ms' = length ms"
    using main_loop_outputs [OF l ro es refl 0(2)] by simp_all
  have "shape out = length ms' # total_outputs sched # ?s" "0 < total_outputs sched"
    using assemble_shape [OF a 1(1)] by simp_all
  then have shape: "shape out
      = [n_ens_members cfg, n_positive ts, shape precip ! 1, shape precip ! 2]"
    and pos: "0 < n_positive ts"
    using 0(1) 1(2) total_outputs_schedule [OF tc sc] validated_shape [OF v] by simp_all
  have "length outs = n_outputs (t, subs)"
    if "worker C cfg velocity E m t subs = Inr (outs, m')" for E m t subs outs m'
    using worker_outs [OF that] by (simp add: n_outputs_def)
  then show ?thesis
    using shape pos by blast
qed

theorem C5_witness:
  "forecast persistence cfg_c5 precip_3x3 velocity_3x3 (TList [0.5, 1, 1.5])
     = Inr (Some \<lparr>shape = [2, 3, 3, 3], elems = concat (replicate 6 newest_3x3)\<rparr>, [])
   \<and> extrapolate_shape persistence
   \<and> times_contract persistence (TList [0.5, 1, 1.5])
   \<and> schedule persistence (TList [0.5, 1, 1.5])
       = Inr [(0, [0, 1 / 2]), (1, [1, 3 / 2]), (2, [])]
   \<and> n_positive (TList [0.5, 1, 1.5]) = 3
   \<and> shape \<lparr>shape = [2, 3, 3, 3], elems = concat (replicate 6 newest_3x3)\<rparr>
       = [n_ens_members cfg_c5, n_positive (TList [0.5, 1, 1.5]), shape precip_3x3 ! 1,
          shape precip_3x3 ! 2]"
proof -
  have 1: "forecast persistence cfg_c5 precip_3x3 velocity_3x3 (TList [0.5, 1, 1.5])
     = Inr (Some \<lparr>shape = [2, 3, 3, 3], elems = concat (replicate 6 newest_3x3)\<rparr>, [])"
    by code_simp
  have 2: "extrapolate_shape persistence"
    by (auto simp: extrapolate_shape_def persistence_def list_all_iff split: option.splits)
  have 3: "times_contract persistence (TList [0.5, 1, 1.5])"
    by code_simp
  have 4: "schedule persistence (TList [0.5, 1, 1.5])
       = Inr [(0, [0, 1 / 2]), (1, [1, 3 / 2]), (2, [])]"
    by code_simp
  have 5: "n_positive (TList [0.5, 1, 1.5]) = 3"
    by (simp add: n_positive_def)
  have 6: "shape \<lparr>shape = [2, 3, 3, 3], elems = concat (replicate 6 newest_3x3)\<rparr>
       = [n_ens_members cfg_c5, n_positive (TList [0.5, 1, 1.5]), shape precip_3x3 ! 1,
          shape precip_3x3 ! 2]"
    using C5_output_shape [OF 1 2 3] by (rule conjunct1)
  show ?thesis
    by (intro conjI) (rule 1 2 3 4 5 6)+
qed

text \<open>
  With no time step nothing is there to return, and the call raises in line 840. With
  the two requested times 0 and 1 the array holds one field for each member. And with
  the requested times 0.5, 1 and 1.5 the time 0.5 is in step 0, where \<^verbatim>\<open>worker\<close>
  returns its field.
\<close>

theorem C5_counterexample:
  "return_output cfg_c5
   \<and> validate cfg_c5 precip_3x3 velocity_3x3 (TInt 0) = Inr ()
   \<and> forecast persistence cfg_c5 precip_3x3 velocity_3x3 (TInt 0)
       = Inl (ValueError ''need at least one array to stack'')
   \<and> validate cfg_c5 precip_3x3 velocity_3x3 (TList [0, 1]) = Inr ()
   \<and> n_requested (TList [0, 1]) = 2
   \<and> forecast persistence cfg_c5 precip_3x3 velocity_3x3 (TList [0, 1])
       = Inr (Some \<lparr>shape = [2, 1, 3, 3], elems = concat (replicate 2 newest_3x3)\<rparr>, [])
   \<and> schedule persistence (TList [0.5, 1, 1.5])
       = Inr [(0, [0, 1 / 2]), (1, [1, 3 / 2]), (2, [])]
   \<and> (case init_forecast persistence cfg_c5 precip_3x3 velocity_3x3 of
        Inr (E, ms) \<Rightarrow>
          (case worker persistence cfg_c5 velocity_3x3 E (ms ! 0) 0 [0, 1 / 2] of
             Inr (outs, m') \<Rightarrow> outs = [\<lparr>shape = [3, 3], elems = newest_3x3\<rparr>]
           | Inl e \<Rightarrow> False)
      | Inl e \<Rightarrow> False)"
  by code_simp

subsection \<open>The deterministic mode\<close>

lemma mapE_replicate:
  assumes "mapE f (replicate n x) = Inr ys"
  shows "\<exists>y. ys = replicate n y \<and> (0 < n \<longrightarrow> f x = Inr y)"
proof (cases n)
  case 0
  then show ?thesis using assms by simp
next
  case (Suc k)
  have len: "length ys = n" and all: "\<forall>y\<in>set ys. f x = Inr y"
    using mapE_Inr_set [OF assms] by auto
  from len Suc obtain y ys' where ys: "ys = y # ys'" by (cases ys) auto
  have y: "f x = Inr y" using all ys by simp
  have "\<forall>z\<in>set ys. z = y" using all y by auto
  then have "replicate (length ys) y = ys" by (rule replicate_length_same)
  then show ?thesis using len y by auto
qed

lemma init_vps_none:
  assumes "vel_pert_method cfg = None" "init_vps C cfg velocity rngs vp = Inr vs"
  shows "vs = replicate (n_ens_members cfg) None"
  using assms by (simp add: init_vps_def)

lemma init_members_nth:
  assumes "init_forecast C cfg precip velocity = Inr (E, ms)"
    and "noise_method cfg = None" and "vel_pert_method cfg = None"
    and "i < n_ens_members cfg" "j < n_ens_members cfg"
  shows "ms ! i = ms ! j"
  using assms unfolding init_forecast_def
  by (auto simp: bindE_eq_Inr Let_def split_beta split: if_splits dest!: init_vps_none [rotated])

lemma init_members_equal:
  assumes i: "init_forecast C cfg precip velocity = Inr (E, ms)"
    and nz: "noise_method cfg = None" and vp: "vel_pert_method cfg = None"
  shows "\<exists>m. ms = replicate (n_ens_members cfg) m"
proof (cases ms)
  case Nil
  then show ?thesis using init_members [OF i, of "[]"] by simp
next
  case (Cons m ms')
  have len: "length ms = n_ens_members cfg"
    using init_members [OF i, of "[]"] by simp
  have "\<forall>z\<in>set ms. z = m"
  proof
    fix z assume "z \<in> set ms"
    then obtain k where k: "k < length ms" "ms ! k = z" by (auto simp: in_set_conv_nth)
    have "ms ! k = ms ! 0"
      using init_members_nth [OF i nz vp, of k 0] k len Cons by simp
    then show "z = m" using k Cons by simp
  qed
  then have "replicate (length ms) m = ms" by (rule replicate_length_same)
  then show ?thesis using len by metis
qed

lemma step_members_equal:
  assumes st: "step C cfg velocity (E, ms, calls) ts = Inr (E', ms', calls')"
    and eq: "ms = replicate n m"
  shows "\<exists>m'. ms' = replicate n m'"
proof -
  obtain t subs where ts: "ts = (t, subs)" by (cases ts)
  from st ts obtain E1 res where
    res: "mapE (\<lambda>m. worker C cfg velocity E1 m t subs) ms = Inr res"
    and ms': "ms' = map (\<lambda>(outs, m). if return_output cfg then m\<lparr>precip_f := precip_f m @ outs\<rparr>
                   else m) res"
    by (auto simp: step_def bindE_eq_Inr)
  from mapE_replicate [OF res [unfolded eq]] obtain r where "res = replicate n r" by blast
  then show ?thesis using ms' by simp
qed

lemma main_loop_members_equal:
  assumes "main_loop C cfg velocity sched (E, ms, calls) = Inr (E', ms', calls')"
    and "ms = replicate n m"
  shows "\<exists>m'. ms' = replicate n m'"
  using assms
proof (induction sched arbitrary: E ms calls m)
  case Nil
  then show ?case by auto
next
  case (Cons ts rest)
  from Cons.prems(1) obtain E1 ms1 calls1 where
    s1: "step C cfg velocity (E, ms, calls) ts = Inr (E1, ms1, calls1)"
    and r: "main_loop C cfg velocity rest (E1, ms1, calls1) = Inr (E', ms', calls')"
    by (auto simp: bindE_eq_Inr)
  from step_members_equal [OF s1 Cons.prems(2)] obtain m1 where "ms1 = replicate n m1" by blast
  then show ?case using Cons.IH [OF r] by blast
qed

text \<open>
  C6. With \<^verbatim>\<open>noise_method\<close> and \<^verbatim>\<open>vel_pert_method\<close> both \<^verbatim>\<open>None\<close>, whenever
  \<^verbatim>\<open>forecast\<close> returns an array, that array is the stack of \<^verbatim>\<open>n_ens_members\<close> copies
  of one and the same time series of fields: the output fields of any two members are
  equal at every output time.
\<close>

theorem C6_deterministic_members_identical:
  assumes nz: "noise_method cfg = None" and vp: "vel_pert_method cfg = None"
    and run: "forecast C cfg precip velocity ts = Inr (Some out, calls)"
  shows "\<exists>fs row. np_stack fs = Inr row
    \<and> np_stack (replicate (n_ens_members cfg) row) = Inr out"
proof -
  from run obtain E ms sched E' ms' where
    i: "init_forecast C cfg precip velocity = Inr (E, ms)"
    and l: "main_loop C cfg velocity sched (E, ms, []) = Inr (E', ms', calls)"
    and a: "assemble cfg ms' = Inr (Some out)"
    by (auto simp: forecast_def bindE_eq_Inr)
  let ?n = "n_ens_members cfg"
  from init_members_equal [OF i nz vp] obtain m where "ms = replicate ?n m" by blast
  from main_loop_members_equal [OF l this] obtain m' where ms': "ms' = replicate ?n m'" by blast
  from a obtain rows where
    rows: "mapE (\<lambda>m. np_stack (precip_f m)) ms' = Inr rows" and out: "np_stack rows = Inr out"
    by (auto simp: assemble_def bindE_eq_Inr split: if_splits)
  have rows': "mapE (\<lambda>m. np_stack (precip_f m)) (replicate ?n m') = Inr rows"
    using rows ms' by simp
  have "\<exists>row. rows = replicate ?n row \<and> (0 < ?n \<longrightarrow> np_stack (precip_f m') = Inr row)"
    using mapE_replicate [OF rows'] by simp
  then obtain row where
    r: "rows = replicate ?n row" and f: "0 < ?n \<longrightarrow> np_stack (precip_f m') = Inr row"
    by (elim exE conjE)
  have "rows \<noteq> []" using np_stack_Inr [OF out] by simp
  then have "0 < ?n" using r by simp
  then have 1: "np_stack (precip_f m') = Inr row" using f by simp
  have 2: "np_stack (replicate ?n row) = Inr out" using r out by simp
  show ?thesis using 1 2 by (intro exI conjI)
qed

theorem C6_witness:
  "noise_method cfg_ex = None \<and> vel_pert_method cfg_ex = None
   \<and> forecast persistence cfg_ex precip_ex velocity_ex (TInt 2)
     = Inr (Some \<lparr>shape = [2, 2, 1, 2],
              elems = [Fin 3, NaN, Fin 3, NaN, Fin 3, NaN, Fin 3, NaN]\<rparr>,
            [\<lparr>shape = [2, 2], elems = [Fin 3, NaN, Fin 3, NaN]\<rparr>,
             \<lparr>shape = [2, 2], elems = [Fin 3, NaN, Fin 3, NaN]\<rparr>])
   \<and> (\<exists>fs row. np_stack fs = Inr row
        \<and> np_stack (replicate (n_ens_members cfg_ex) row)
          = Inr \<lparr>shape = [2, 2, 1, 2],
              elems = [Fin 3, NaN, Fin 3, NaN, Fin 3, NaN, Fin 3, NaN]\<rparr>)"
proof -
  have 1: "noise_method cfg_ex = None" "vel_pert_method cfg_ex = None"
    by (simp_all add: cfg_ex_def)
  have 2: "forecast persistence cfg_ex precip_ex velocity_ex (TInt 2)
     = Inr (Some \<lparr>shape = [2, 2, 1, 2],
              elems = [Fin 3, NaN, Fin 3, NaN, Fin 3, NaN, Fin 3, NaN]\<rparr>,
            [\<lparr>shape = [2, 2], elems = [Fin 3, NaN, Fin 3, NaN]\<rparr>,
             \<lparr>shape = [2, 2], elems = [Fin 3, NaN, Fin 3, NaN]\<rparr>])"
    by code_simp
  note 3 = C6_deterministic_members_identical [OF 1 2]
  show ?thesis
    by (intro conjI) (rule 1 2 3)+
qed

subsection \<open>The calls of the callback\<close>

lemma np_stack_Inr_eq:
  assumes "np_stack as = Inr a"
  shows "a = \<lparr>shape = length as # shape (hd as), elems = concat (map elems as)\<rparr>"
  using assms by (auto simp: np_stack_def split: list.splits if_splits)

lemma mapE_eq_map:
  assumes "mapE f xs = Inr ys" "\<And>x. x \<in> set xs \<Longrightarrow> f x = Inr (g x)"
  shows "ys = map g xs"
  using mapE_Inr_map [of xs f g, OF assms(2)] assms(1) by simp

lemma asarray_nonempty:
  assumes "os \<noteq> []" "\<forall>x\<in>set os. shape x = s"
  shows "asarray os = Inr \<lparr>shape = length os # s, elems = concat (map elems os)\<rparr>"
  using assms by (cases os) (auto simp: asarray_def np_stack_def list_ex_iff)

lemma run_callback_calls:
  assumes cb: "callback cfg" and rc: "run_callback cfg outs = Inr new"
    and all: "\<forall>os\<in>set outs. length os = k \<and> (\<forall>x\<in>set os. shape x = s)"
  shows "new = (if k = 0 then [] else [callback_arg outs])
    \<and> (0 < k \<longrightarrow> shape (callback_arg outs) = filter (\<lambda>d. d \<noteq> 1) (length outs # k # s))"
proof -
  have "\<exists>as stacked. mapE asarray outs = Inr as \<and> np_stack as = Inr stacked
      \<and> new = (if 0 < shape stacked ! 1 then [squeeze stacked] else [])"
    using rc cb by (auto simp: run_callback_def bindE_eq_Inr split: if_splits)
  then obtain as stacked where as: "mapE asarray outs = Inr as"
    and stk: "np_stack as = Inr stacked"
    and new: "new = (if 0 < shape stacked ! 1 then [squeeze stacked] else [])"
    by (elim exE conjE)
  have ne: "as \<noteq> []" using np_stack_Inr [OF stk] by simp
  have len: "length as = length outs" using mapE_Inr_set [OF as] by simp
  with ne have one: "outs \<noteq> []" by auto
  then have hd: "hd outs \<in> set outs" by simp
  note s = np_stack_Inr_eq [OF stk]
  show ?thesis
  proof (cases "k = 0")
    case True
    have "as = map (\<lambda>os. \<lparr>shape = [0], elems = []\<rparr>) outs"
    proof (rule mapE_eq_map [OF as])
      fix os assume "os \<in> set outs"
      then have "os = []" using all True by auto
      then show "asarray os = Inr \<lparr>shape = [0], elems = []\<rparr>" by (simp add: asarray_def)
    qed
    then have "shape (hd as) = [0]" using one by (simp add: hd_map)
    then have "shape stacked ! 1 = 0" using s by simp
    then show ?thesis using new True by simp
  next
    case False
    let ?g = "\<lambda>os. \<lparr>shape = length os # s, elems = concat (map elems os)\<rparr>"
    have asm: "as = map ?g outs"
    proof (rule mapE_eq_map [OF as])
      fix os assume "os \<in> set outs"
      then have "os \<noteq> []" "\<forall>x\<in>set os. shape x = s" using all False by auto
      then show "asarray os = Inr (?g os)" by (rule asarray_nonempty)
    qed
    have k: "length (hd outs) = k" and sh: "\<forall>x\<in>set (hd outs). shape x = s"
      using all hd by auto
    from k False have "hd outs \<noteq> []" by auto
    then have "hd (hd outs) \<in> set (hd outs)" by simp
    then have s0: "shape (hd (hd outs)) = s" using sh by simp
    have "hd as = ?g (hd outs)" using asm one by (simp add: hd_map)
    then have sha: "shape (hd as) = k # s" using k by simp
    have el: "concat (map elems as) = concat (map (\<lambda>os. concat (map elems os)) outs)"
      unfolding asm by (simp add: comp_def)
    have st: "stacked = \<lparr>shape = length outs # k # s,
        elems = concat (map (\<lambda>os. concat (map elems os)) outs)\<rparr>"
      using s sha el len by simp
    have ca: "callback_arg outs = squeeze stacked"
      unfolding callback_arg_def st k s0 ..
    have "shape stacked ! 1 = k" using st by simp
    then have "new = [squeeze stacked]" using new False by simp
    moreover have "shape (squeeze stacked) = filter (\<lambda>d. d \<noteq> 1) (length outs # k # s)"
      unfolding st squeeze_def by simp
    ultimately show ?thesis using ca False by simp
  qed
qed


lemma step_calls:
  assumes cb: "callback cfg"
    and st: "step C cfg velocity (E, ms, calls) (t, subs) = Inr (E', ms', calls')"
    and es: "extrapolate_shape C"
  shows "length ms' = length ms
    \<and> (\<exists>E1 res. mapE (\<lambda>m. worker C cfg velocity E1 m t subs) ms = Inr res
         \<and> calls' = calls @ (if n_outputs (t, subs) = 0 then []
                             else [callback_arg (map fst res)]))
    \<and> map shape calls' = map shape calls
         @ (if n_outputs (t, subs) = 0 then []
            else [filter (\<lambda>d. d \<noteq> 1) (length ms # n_outputs (t, subs) # tl (shape velocity))])"
proof -
  from st obtain E1 res new where
    res: "mapE (\<lambda>m. worker C cfg velocity E1 m t subs) ms = Inr res"
    and rc: "run_callback cfg (map fst res) = Inr new"
    and c: "calls' = calls @ new"
    and ms': "ms' = map (\<lambda>(outs, m). if return_output cfg then m\<lparr>precip_f := precip_f m @ outs\<rparr>
                   else m) res"
    by (auto simp: step_def bindE_eq_Inr)
  let ?k = "n_outputs (t, subs)" and ?s = "tl (shape velocity)"
  have len: "length res = length ms" using mapE_Inr_set [OF res] by simp
  have all: "\<forall>os\<in>set (map fst res). length os = ?k \<and> (\<forall>x\<in>set os. shape x = ?s)"
  proof
    fix os assume "os \<in> set (map fst res)"
    then obtain m' where "(os, m') \<in> set res" by auto
    then obtain m where w: "worker C cfg velocity E1 m t subs = Inr (os, m')"
      using mapE_Inr_set [OF res] by blast
    note wo = worker_outs [OF w]
    have "shape x = ?s" if "x \<in> set os" for x
    proof -
      from wo that obtain f v tms d where "shape v = shape velocity"
        "x \<in> set (fst (extrapolate C f v tms d))" by blast
      then show ?thesis using es by (auto simp: extrapolate_shape_def list_all_iff)
    qed
    then show "length os = ?k \<and> (\<forall>x\<in>set os. shape x = ?s)"
      using wo by (simp add: n_outputs_def)
  qed
  note r = run_callback_calls [OF cb rc all]
  have 1: "length ms' = length ms" using ms' len by simp
  have 2: "calls' = calls @ (if ?k = 0 then [] else [callback_arg (map fst res)])"
    using r c by simp
  have 3: "map shape calls' = map shape calls
         @ (if ?k = 0 then [] else [filter (\<lambda>d. d \<noteq> 1) (length ms # ?k # ?s)])"
    using r 2 len by simp
  show ?thesis using 1 2 3 res by blast
qed

lemma main_loop_calls:
  assumes "main_loop C cfg velocity sched (E, ms, calls) = Inr (E', ms', calls')"
    and cb: "callback cfg" and es: "extrapolate_shape C"
  shows "map shape calls' = map shape calls
    @ map (\<lambda>st. filter (\<lambda>d. d \<noteq> 1) (length ms # n_outputs st # tl (shape velocity)))
        (filter (\<lambda>st. 0 < n_outputs st) sched)"
  using assms(1)
proof (induction sched arbitrary: E ms calls)
  case Nil
  then show ?case by auto
next
  case (Cons ts rest)
  obtain t subs where ts: "ts = (t, subs)" by (cases ts)
  from Cons.prems obtain E1 ms1 calls1 where
    s1: "step C cfg velocity (E, ms, calls) (t, subs) = Inr (E1, ms1, calls1)"
    and r: "main_loop C cfg velocity rest (E1, ms1, calls1) = Inr (E', ms', calls')"
    unfolding ts by (auto simp: bindE_eq_Inr)
  have l: "length ms1 = length ms"
    and c: "map shape calls1 = map shape calls
         @ (if n_outputs (t, subs) = 0 then []
            else [filter (\<lambda>d. d \<noteq> 1) (length ms # n_outputs (t, subs) # tl (shape velocity))])"
    using step_calls [OF cb s1 es] by blast+
  show ?case
    unfolding Cons.IH [OF r] c l ts by simp
qed

lemma squeezed_no_one: "filter (\<lambda>d. d \<noteq> 1) xs \<noteq> (1::nat) # ys"
proof
  assume "filter (\<lambda>d. d \<noteq> 1) xs = 1 # ys"
  then have "(1::nat) \<in> set (filter (\<lambda>d. d \<noteq> 1) xs)" by simp
  then show False by simp
qed

text \<open>
  C7. The claim, and the docstring of the callback (lines 141-146): the callback is
  called with a three-dimensional array of shape \<^verbatim>\<open>(n_ens_members, h, w)\<close>. Line 828
  passes \<^verbatim>\<open>precip_f_stacked.squeeze()\<close>: whenever \<^verbatim>\<open>forecast\<close> returns, the
  callback was called for the steps that have an output field, in their order, and the
  argument for a step with \<open>k\<close> output fields has the shape
  \<^verbatim>\<open>(n_ens_members, k, m, n)\<close> with every axis of length one dropped, \<open>(m, n)\<close> the
  spatial shape of the input. So with one member no argument has the shape
  \<^verbatim>\<open>(n_ens_members, m, n)\<close>.
\<close>

theorem C7_callback_argument_squeezed:
  assumes cb: "callback cfg"
    and es: "extrapolate_shape C"
    and run: "forecast C cfg precip velocity ts = Inr (out, calls)"
  shows "(\<exists>sched. schedule C ts = Inr sched
      \<and> map shape calls
        = map (\<lambda>st. filter (\<lambda>d. d \<noteq> 1)
                 [n_ens_members cfg, n_outputs st, shape precip ! 1, shape precip ! 2])
            (filter (\<lambda>st. 0 < n_outputs st) sched))
    \<and> (n_ens_members cfg = 1 \<longrightarrow>
        list_all (\<lambda>a. shape a \<noteq> [n_ens_members cfg, shape precip ! 1, shape precip ! 2])
          calls)"
proof -
  from run obtain E ms sched E' ms' where
    v: "validate cfg precip velocity ts = Inr ()"
    and i: "init_forecast C cfg precip velocity = Inr (E, ms)"
    and sc: "schedule C ts = Inr sched"
    and l: "main_loop C cfg velocity sched (E, ms, []) = Inr (E', ms', calls)"
    by (auto simp: forecast_def bindE_eq_Inr)
  let ?n = "n_ens_members cfg" and ?h = "shape precip ! 1" and ?w = "shape precip ! 2"
  let ?S = "filter (\<lambda>st. 0 < n_outputs st) sched"
  have n: "length ms = ?n"
    using init_members [OF i] by simp
  have 1: "map shape calls
      = map (\<lambda>st. filter (\<lambda>d. d \<noteq> 1) [?n, n_outputs st, ?h, ?w]) ?S"
    using main_loop_calls [OF l cb es] unfolding n validated_shape [OF v] by simp
  have 2: "list_all (\<lambda>a. shape a \<noteq> [?n, ?h, ?w]) calls" if one: "?n = 1"
  proof -
    have "s \<noteq> [?n, ?h, ?w]" if "s \<in> set (map shape calls)" for s
    proof
      assume s: "s = [?n, ?h, ?w]"
      from that have "s \<in> (\<lambda>st. filter (\<lambda>d. d \<noteq> 1) [?n, n_outputs st, ?h, ?w]) ` set ?S"
        by (simp only: 1 set_map)
      then obtain st where "s = filter (\<lambda>d. d \<noteq> 1) [?n, n_outputs st, ?h, ?w]"
        by blast
      then have "filter (\<lambda>d. d \<noteq> 1) [?n, n_outputs st, ?h, ?w] = 1 # [?h, ?w]"
        using s one by (simp only:)
      then show False
        by (simp only: squeezed_no_one)
    qed
    then have "\<forall>a\<in>set calls. shape a \<noteq> [?n, ?h, ?w]"
      by (simp only: set_map) blast
    then show ?thesis by (simp only: list_all_iff)
  qed
  show ?thesis
    using sc 1 2 by blast
qed

theorem C7_witness:
  "callback cfg_c7 \<and> extrapolate_shape persistence \<and> n_ens_members cfg_c7 = 1
   \<and> forecast persistence cfg_c7 precip_3x3 velocity_3x3 (TInt 1)
     = Inr (Some \<lparr>shape = [1, 1, 3, 3], elems = newest_3x3\<rparr>,
            [\<lparr>shape = [3, 3], elems = newest_3x3\<rparr>])
   \<and> schedule persistence (TInt 1) = Inr [(0, [0]), (1, [1])]
   \<and> list_all (\<lambda>a. shape a \<noteq> [n_ens_members cfg_c7, shape precip_3x3 ! 1,
          shape precip_3x3 ! 2])
       [\<lparr>shape = [3, 3], elems = newest_3x3\<rparr>]
   \<and> [n_ens_members cfg_c7, shape precip_3x3 ! 1, shape precip_3x3 ! 2] = [1, 3, 3]
   \<and> forecast persistence cfg_ex precip_3x3 velocity_3x3 (TList [1, 1, 2])
     = Inr (Some \<lparr>shape = [2, 3, 3, 3], elems = concat (replicate 6 newest_3x3)\<rparr>,
            [\<lparr>shape = [2, 2, 3, 3], elems = concat (replicate 4 newest_3x3)\<rparr>,
             \<lparr>shape = [2, 3, 3], elems = concat (replicate 2 newest_3x3)\<rparr>])
   \<and> schedule persistence (TList [1, 1, 2]) = Inr [(0, [0]), (1, [1, 1]), (2, [2])]"
proof -
  have 1: "callback cfg_c7" "n_ens_members cfg_c7 = 1"
    by (simp_all add: cfg_c7_def cfg_ex_def)
  have 2: "extrapolate_shape persistence"
    by (auto simp: extrapolate_shape_def persistence_def list_all_iff split: option.splits)
  have 3: "forecast persistence cfg_c7 precip_3x3 velocity_3x3 (TInt 1)
     = Inr (Some \<lparr>shape = [1, 1, 3, 3], elems = newest_3x3\<rparr>,
            [\<lparr>shape = [3, 3], elems = newest_3x3\<rparr>])"
    by code_simp
  have 4: "schedule persistence (TInt 1) = Inr [(0, [0]), (1, [1])]"
    by code_simp
  have 5: "list_all (\<lambda>a. shape a \<noteq> [n_ens_members cfg_c7, shape precip_3x3 ! 1,
          shape precip_3x3 ! 2])
       [\<lparr>shape = [3, 3], elems = newest_3x3\<rparr>]"
    using C7_callback_argument_squeezed [OF 1(1) 2 3] 1(2) by blast
  have 6: "[n_ens_members cfg_c7, shape precip_3x3 ! 1, shape precip_3x3 ! 2] = [1, 3, 3]"
    by (simp add: cfg_c7_def cfg_ex_def precip_3x3_def)
  have 7: "forecast persistence cfg_ex precip_3x3 velocity_3x3 (TList [1, 1, 2])
     = Inr (Some \<lparr>shape = [2, 3, 3, 3], elems = concat (replicate 6 newest_3x3)\<rparr>,
            [\<lparr>shape = [2, 2, 3, 3], elems = concat (replicate 4 newest_3x3)\<rparr>,
             \<lparr>shape = [2, 3, 3], elems = concat (replicate 2 newest_3x3)\<rparr>])"
    by code_simp
  have 8: "schedule persistence (TList [1, 1, 2]) = Inr [(0, [0]), (1, [1, 1]), (2, [2])]"
    by code_simp
  show ?thesis
    by (intro conjI) (rule 1 2 3 4 5 6 7 8)+
qed

end
